theory Spec2Isabelle
  imports Complex_Main "HOL-Library.Word"
begin

section \<open>The shader cube: cube.c\<close>

text \<open>
  A shallow embedding of \<^verbatim>\<open>src/C/shader-cube/cube.c\<close>. The C globals and the part of the
  OpenGL, GLUT and console state the program writes are the fields of one record, passed
  through every function. What the operating system and the graphics driver answer (file
  contents, allocation, compile and link status, handles) is read from an environment
  record.
\<close>

subsection \<open>C types\<close>

text \<open>
  \<^verbatim>\<open>int\<close>, \<^verbatim>\<open>GLuint\<close> and \<^verbatim>\<open>GLint\<close> are 32 bits wide; \<^verbatim>\<open>int\<close> is read as two's
  complement with \<open>sint\<close>. The arithmetic \<^verbatim>\<open>+=\<close> and \<^verbatim>\<open>-=\<close> on \<^verbatim>\<open>int\<close> wraps around in
  the model. The float literals of the program (0.0, 0.5, 1.0 and their negations) are
  exact binary fractions and are written as rationals.
\<close>

type_synonym c_int = "32 word"
type_synonym GLuint = "32 word"
type_synonym GLint = "32 word"
type_synonym byte = "8 word"

text \<open>
  \<^verbatim>\<open>glRotatef\<close> takes its angle as a \<^verbatim>\<open>GLfloat\<close>, so the \<^verbatim>\<open>int\<close> angle passed to it is
  converted to single precision: exactly when its magnitude is below 2 ^ 24, and
  otherwise rounded to 24 significant bits, to the nearest value with ties to even (the
  conversion of IEEE 754 targets). \<open>float_shift a\<close> is the number of low bits a
  magnitude \<open>a\<close> of at most 2 ^ 31 loses.
\<close>

definition float_shift :: "nat \<Rightarrow> nat" where
  "float_shift a =
     (if a < 2 ^ 24 then 0 else if a < 2 ^ 25 then 1 else if a < 2 ^ 26 then 2
      else if a < 2 ^ 27 then 3 else if a < 2 ^ 28 then 4 else if a < 2 ^ 29 then 5
      else if a < 2 ^ 30 then 6 else if a < 2 ^ 31 then 7 else 8)"

definition round_half_even :: "nat \<Rightarrow> nat \<Rightarrow> nat" where
  "round_half_even a k =
     (let q = a div 2 ^ k; r = a mod 2 ^ k
      in if 2 ^ k < 2 * r \<or> (2 * r = 2 ^ k \<and> odd q) then q + 1 else q)"

definition GLfloat_of_int :: "int \<Rightarrow> rat" where
  "GLfloat_of_int n =
     (let a = nat \<bar>n\<bar>; k = float_shift a
      in of_int (sgn n * int (round_half_even a k * 2 ^ k)))"

text \<open>The special-key codes of \<^verbatim>\<open>GL/freeglut_std.h\<close>.\<close>

definition GLUT_KEY_LEFT :: c_int where "GLUT_KEY_LEFT = 100"
definition GLUT_KEY_UP :: c_int where "GLUT_KEY_UP = 101"
definition GLUT_KEY_RIGHT :: c_int where "GLUT_KEY_RIGHT = 102"
definition GLUT_KEY_DOWN :: c_int where "GLUT_KEY_DOWN = 103"
definition GLUT_KEY_PAGE_UP :: c_int where "GLUT_KEY_PAGE_UP = 104"
definition GLUT_KEY_PAGE_DOWN :: c_int where "GLUT_KEY_PAGE_DOWN = 105"
definition GLUT_KEY_HOME :: c_int where "GLUT_KEY_HOME = 106"

subsection \<open>The OpenGL and GLUT calls the program makes\<close>

datatype stage = GL_VERTEX_SHADER | GL_FRAGMENT_SHADER

text \<open>
  The legacy matrix stack is kept symbolically: the current modelview matrix is the list
  of operations multiplied onto the identity since the last \<^verbatim>\<open>glLoadIdentity\<close>, in call
  order. \<open>Rotatef a x y z\<close> is a rotation by \<open>a\<close> degrees about the axis \<open>(x, y, z)\<close>,
  \<open>Scalef x y z\<close> a scaling.
\<close>

datatype mat_op = Rotatef rat rat rat rat | Scalef rat rat rat

type_synonym matrix = "mat_op list"

text \<open>
  Every call that changes OpenGL or GLUT state is logged in call order, with the
  arguments that matter. Queries (\<^verbatim>\<open>glGetShaderiv\<close>, \<^verbatim>\<open>glGetProgramiv\<close>, the info logs,
  \<^verbatim>\<open>glGetFloatv\<close>, \<^verbatim>\<open>glGetUniformLocation\<close>) change nothing and are not logged.
\<close>

datatype call =
    glutInit
  | glutInitDisplayMode
  | glutInitWindowSize nat nat
  | glutCreateWindow string
  | glutDisplayFunc
  | glutSpecialFunc
  | glewInit
  | glEnable_DEPTH_TEST
  | glCreateShader stage
  | glShaderSource GLuint "byte list"
  | glCompileShader GLuint
  | glCreateProgram
  | glAttachShader GLuint GLuint
  | glLinkProgram GLuint
  | glDeleteShader GLuint
  | glGenVertexArrays
  | glGenBuffers
  | glBindVertexArray GLuint
  | glBindBuffer GLuint
  | glBufferData "rat list"
  | glVertexAttribPointer
  | glEnableVertexAttribArray
  | glClear
  | glUseProgram GLuint
  | glMatrixMode_MODELVIEW
  | glLoadIdentity
  | glRotatef rat rat rat rat
  | glUniformMatrix4fv GLint matrix
  | glScalef rat rat rat
  | glDrawArrays nat nat
  | glutSwapBuffers
  | glutPostRedisplay

subsection \<open>Program state and environment\<close>

record world =
  rotateX :: c_int
  rotateY :: c_int
  rotateZ :: c_int
  shader_program :: GLuint
  VAO :: GLuint
  VBO :: GLuint
  current_program :: GLuint
  modelview :: matrix
  uniforms :: "(GLuint \<times> GLint) \<rightharpoonup> matrix"
  array_buffer :: GLuint
  buffer_store :: "GLuint \<rightharpoonup> rat list"
  console :: "string list"
  calls :: "call list"

text \<open>The state at the start of \<^verbatim>\<open>main\<close>: the globals are zero-initialised.\<close>

definition start :: world where
  "start = \<lparr> rotateX = 0, rotateY = 0, rotateZ = 0, shader_program = 0, VAO = 0, VBO = 0,
     current_program = 0, modelview = [], uniforms = Map.empty, array_buffer = 0,
     buffer_store = Map.empty, console = [], calls = [] \<rparr>"

text \<open>
  The environment of one run. \<open>files\<close> gives the bytes of every file \<^verbatim>\<open>fopen\<close> can
  open (regular files: \<^verbatim>\<open>ftell\<close> at the end gives the length); \<open>malloc_ok n\<close> says whether
  \<^verbatim>\<open>malloc(n)\<close> succeeds; \<open>fread_avail p\<close> is the number of bytes the stream of \<open>p\<close>
  delivers before an error or the end of the file. The rest is what the driver answers.
  \<open>shader_handle t\<close> is what \<^verbatim>\<open>glCreateShader\<close> returns, 0 when it fails.
  \<open>compile_status t src\<close> is the value \<^verbatim>\<open>compile_shader\<close> reads from its local
  \<^verbatim>\<open>success\<close> after \<^verbatim>\<open>glGetShaderiv\<close>: the compile status of the stage, and, for the
  handle 0, where the query fails and writes nothing, whatever the uninitialised local
  holds.
\<close>

record env =
  files :: "string \<rightharpoonup> byte list"
  malloc_ok :: "nat \<Rightarrow> bool"
  fread_avail :: "string \<Rightarrow> nat"
  shader_handle :: "stage \<Rightarrow> GLuint"
  compile_status :: "stage \<Rightarrow> byte list \<Rightarrow> bool"
  shader_info_log :: "stage \<Rightarrow> byte list \<Rightarrow> string"
  program_handle :: GLuint
  link_status :: bool
  program_info_log :: string
  model_location :: GLint
  vao_handle :: GLuint
  vbo_handle :: GLuint

definition gl :: "call \<Rightarrow> world \<Rightarrow> world" where
  "gl c w = w\<lparr>calls := calls w @ [c]\<rparr>"

definition printf :: "string \<Rightarrow> world \<Rightarrow> world" where
  "printf msg w = w\<lparr>console := console w @ [msg]\<rparr>"

definition nl :: string where
  "nl = [CHR 0x0A]"

text \<open>A function of the program either returns or ends the process with \<^verbatim>\<open>exit\<close>.\<close>

datatype 'a outcome = Exits c_int world | Returns 'a world

subsection \<open>Loading, compiling and linking the shaders\<close>

text \<open>
  \<^verbatim>\<open>read_shader_source\<close> (lines 11 to 40). \<open>None\<close> is the \<^verbatim>\<open>NULL\<close> result. The buffer
  returned holds what \<^verbatim>\<open>fread\<close> stored, followed by the byte written at index
  \<^verbatim>\<open>fileSize\<close>. On POSIX systems the mode \<^verbatim>\<open>"r"\<close> reads the bytes unchanged. File
  sizes are natural numbers (they fit \<^verbatim>\<open>long\<close>). The heap and the open streams are not
  part of the state: \<^verbatim>\<open>free\<close> and \<^verbatim>\<open>fclose\<close> leave no trace in the model.
\<close>

definition read_shader_source :: "env \<Rightarrow> string \<Rightarrow> world \<Rightarrow> byte list option \<times> world" where
  "read_shader_source e filePath w =
     (case files e filePath of
        None \<Rightarrow> (None, printf (''Failed to open file: '' @ filePath @ nl) w)
      | Some bytes \<Rightarrow>
          (let fileSize = length bytes in
           if \<not> malloc_ok e (fileSize + 1)
           then (None, printf (''Failed to allocate memory for file content'' @ nl) w)
           else
             (let bytesRead = min fileSize (fread_avail e filePath) in
              if bytesRead < fileSize
              then (None, printf (''Failed to read file content'' @ nl) w)
              else (Some (take bytesRead bytes @ [0]), w))))"

text \<open>The C string a buffer holds: the bytes before the first null byte.\<close>

definition c_string :: "byte list \<Rightarrow> byte list" where
  "c_string buf = takeWhile (\<lambda>b. b \<noteq> 0) buf"

text \<open>\<^verbatim>\<open>compile_shader\<close> (lines 43 to 57): the handle, or 0 after a failed compilation.\<close>

definition compile_shader :: "env \<Rightarrow> stage \<Rightarrow> byte list \<Rightarrow> world \<Rightarrow> GLuint \<times> world" where
  "compile_shader e type source w =
     (let shader = shader_handle e type;
          w = gl (glCreateShader type) w;
          w = gl (glShaderSource shader (c_string source)) w;
          w = gl (glCompileShader shader) w;
          success = compile_status e type (c_string source)
      in if \<not> success
         then (0, printf (''ERROR::SHADER::COMPILATION_FAILED'' @ nl
                            @ shader_info_log e type (c_string source) @ nl) w)
         else (shader, w))"

text \<open>\<^verbatim>\<open>init_shaders\<close> (lines 59 to 98).\<close>

definition link_shaders :: "env \<Rightarrow> GLuint \<Rightarrow> GLuint \<Rightarrow> world \<Rightarrow> unit outcome" where
  "link_shaders e vertex_shader fragment_shader w =
     (let w = gl glCreateProgram (w\<lparr>shader_program := program_handle e\<rparr>);
          w = gl (glAttachShader (shader_program w) vertex_shader) w;
          w = gl (glAttachShader (shader_program w) fragment_shader) w;
          w = gl (glLinkProgram (shader_program w)) w;
          success = link_status e
      in if \<not> success
         then Exits 1 (printf (''ERROR::SHADER::PROGRAM::LINKING_FAILED'' @ nl
                                 @ program_info_log e @ nl) w)
         else Returns () (gl (glDeleteShader fragment_shader) (gl (glDeleteShader vertex_shader) w)))"

definition init_shaders :: "env \<Rightarrow> world \<Rightarrow> unit outcome" where
  "init_shaders e w =
     (case read_shader_source e ''shaders/vertex.glsl'' w of
        (None, w) \<Rightarrow> Exits 1 w
      | (Some vertex_shader_source, w) \<Rightarrow>
          (case compile_shader e GL_VERTEX_SHADER vertex_shader_source w of
             (vertex_shader, w) \<Rightarrow>
               if vertex_shader = 0 then Exits 1 w
               else
                 (case read_shader_source e ''shaders/fragment.glsl'' w of
                    (None, w) \<Rightarrow> Exits 1 w
                  | (Some fragment_shader_source, w) \<Rightarrow>
                      (case compile_shader e GL_FRAGMENT_SHADER fragment_shader_source w of
                         (fragment_shader, w) \<Rightarrow>
                           if fragment_shader = 0 then Exits 1 w
                           else link_shaders e vertex_shader fragment_shader w))))"

subsection \<open>The cube's geometry\<close>

text \<open>The local array \<^verbatim>\<open>vertices\<close> of \<^verbatim>\<open>init_buffers\<close> (lines 102 to 144), face by face.\<close>

definition vertices :: "rat list" where
  "vertices =
    [-1/2, -1/2, -1/2,   1/2, -1/2, -1/2,   1/2,  1/2, -1/2,
      1/2,  1/2, -1/2,  -1/2,  1/2, -1/2,  -1/2, -1/2, -1/2,

     -1/2, -1/2,  1/2,   1/2, -1/2,  1/2,   1/2,  1/2,  1/2,
      1/2,  1/2,  1/2,  -1/2,  1/2,  1/2,  -1/2, -1/2,  1/2,

     -1/2,  1/2,  1/2,  -1/2,  1/2, -1/2,  -1/2, -1/2, -1/2,
     -1/2, -1/2, -1/2,  -1/2, -1/2,  1/2,  -1/2,  1/2,  1/2,

      1/2,  1/2,  1/2,   1/2,  1/2, -1/2,   1/2, -1/2, -1/2,
      1/2, -1/2, -1/2,   1/2, -1/2,  1/2,   1/2,  1/2,  1/2,

     -1/2, -1/2, -1/2,   1/2, -1/2, -1/2,   1/2, -1/2,  1/2,
      1/2, -1/2,  1/2,  -1/2, -1/2,  1/2,  -1/2, -1/2, -1/2,

     -1/2,  1/2, -1/2,   1/2,  1/2, -1/2,   1/2,  1/2,  1/2,
      1/2,  1/2,  1/2,  -1/2,  1/2,  1/2,  -1/2,  1/2, -1/2]"

text \<open>
  \<^verbatim>\<open>init_buffers\<close> (lines 100 to 156). \<^verbatim>\<open>glBufferData\<close> stores \<^verbatim>\<open>sizeof(vertices)\<close> bytes,
  the whole array, in the buffer bound to \<^verbatim>\<open>GL_ARRAY_BUFFER\<close>.
\<close>

definition buffer_data :: "rat list \<Rightarrow> world \<Rightarrow> world" where
  "buffer_data d w =
     gl (glBufferData d) (w\<lparr>buffer_store := (buffer_store w)(array_buffer w \<mapsto> d)\<rparr>)"

definition init_buffers :: "env \<Rightarrow> world \<Rightarrow> world" where
  "init_buffers e w =
     (let w = gl glGenVertexArrays (w\<lparr>VAO := vao_handle e\<rparr>);
          w = gl glGenBuffers (w\<lparr>VBO := vbo_handle e\<rparr>);
          w = gl (glBindVertexArray (VAO w)) w;
          w = gl (glBindBuffer (VBO w)) (w\<lparr>array_buffer := VBO w\<rparr>);
          w = buffer_data vertices w;
          w = gl glVertexAttribPointer w
      in gl glEnableVertexAttribArray w)"

text \<open>\<^verbatim>\<open>init\<close> (lines 158 to 163).\<close>

definition init :: "env \<Rightarrow> world \<Rightarrow> unit outcome" where
  "init e w =
     (let w = gl glewInit w;
          w = gl glEnable_DEPTH_TEST w
      in case init_shaders e w of
           Exits c w \<Rightarrow> Exits c w
         | Returns u w \<Rightarrow> Returns () (init_buffers e w))"

subsection \<open>Key handling\<close>

text \<open>
  \<^verbatim>\<open>doSpecialKey\<close> (lines 172 to 193): the chain of comparisons in source order, then the
  redraw request when the local \<^verbatim>\<open>redraw\<close> is still 1.
\<close>

definition doSpecialKey :: "c_int \<Rightarrow> c_int \<Rightarrow> c_int \<Rightarrow> world \<Rightarrow> world" where
  "doSpecialKey key x y w =
     (let (redraw, w1) =
        (if key = GLUT_KEY_LEFT then (True, w\<lparr>rotateY := rotateY w - 15\<rparr>)
         else if key = GLUT_KEY_RIGHT then (True, w\<lparr>rotateY := rotateY w + 15\<rparr>)
         else if key = GLUT_KEY_DOWN then (True, w\<lparr>rotateX := rotateX w + 15\<rparr>)
         else if key = GLUT_KEY_UP then (True, w\<lparr>rotateX := rotateX w - 15\<rparr>)
         else if key = GLUT_KEY_PAGE_UP then (True, w\<lparr>rotateZ := rotateZ w + 15\<rparr>)
         else if key = GLUT_KEY_PAGE_DOWN then (True, w\<lparr>rotateZ := rotateZ w - 15\<rparr>)
         else if key = GLUT_KEY_HOME then (True, w\<lparr>rotateX := 0, rotateY := 0, rotateZ := 0\<rparr>)
         else (False, w))
      in if redraw then gl glutPostRedisplay w1 else w1)"

text \<open>
  The three globals \<^verbatim>\<open>rotateX\<close>, \<^verbatim>\<open>rotateY\<close>, \<^verbatim>\<open>rotateZ\<close> together, as stored and as
  the signed integers the C program reads.
\<close>

definition rotation :: "world \<Rightarrow> c_int \<times> c_int \<times> c_int" where
  "rotation w = (rotateX w, rotateY w, rotateZ w)"

definition angles :: "world \<Rightarrow> int \<times> int \<times> int" where
  "angles w = (sint (rotateX w), sint (rotateY w), sint (rotateZ w))"

subsection \<open>Drawing\<close>

text \<open>
  \<^verbatim>\<open>draw\<close> (lines 196 to 216). \<^verbatim>\<open>glGetFloatv\<close> copies the current modelview matrix into
  the local \<^verbatim>\<open>modelMatrix\<close>; \<^verbatim>\<open>glUniformMatrix4fv\<close> stores it in the uniform at
  \<^verbatim>\<open>modelLoc\<close> of the program in use, and does nothing for the location -1. Each
  \<^verbatim>\<open>glRotatef\<close> receives the \<^verbatim>\<open>int\<close> angle converted to \<^verbatim>\<open>GLfloat\<close>.
\<close>

definition mult_matrix :: "mat_op \<Rightarrow> world \<Rightarrow> world" where
  "mult_matrix m w = w\<lparr>modelview := modelview w @ [m]\<rparr>"

definition uniform_matrix :: "GLint \<Rightarrow> matrix \<Rightarrow> world \<Rightarrow> world" where
  "uniform_matrix loc m w =
     gl (glUniformMatrix4fv loc m)
       (if loc = - 1 then w
        else w\<lparr>uniforms := (uniforms w)((current_program w, loc) \<mapsto> m)\<rparr>)"

definition draw :: "env \<Rightarrow> world \<Rightarrow> world" where
  "draw e w =
     (let w = gl (glUseProgram (shader_program w)) (w\<lparr>current_program := shader_program w\<rparr>);
          w = gl glMatrixMode_MODELVIEW w;
          w = gl glLoadIdentity (w\<lparr>modelview := []\<rparr>);
          angle = GLfloat_of_int (sint (rotateX w));
          w = gl (glRotatef angle 1 0 0) (mult_matrix (Rotatef angle 1 0 0) w);
          angle = GLfloat_of_int (sint (rotateY w));
          w = gl (glRotatef angle 0 1 0) (mult_matrix (Rotatef angle 0 1 0) w);
          angle = GLfloat_of_int (sint (rotateZ w));
          w = gl (glRotatef angle 0 0 1) (mult_matrix (Rotatef angle 0 0 1) w);
          modelMatrix = modelview w;
          modelLoc = model_location e;
          w = uniform_matrix modelLoc modelMatrix w;
          w = gl (glBindVertexArray (VAO w)) w;
          w = gl (glScalef (1/2) (1/2) (1/2)) (mult_matrix (Scalef (1/2) (1/2) (1/2)) w)
      in gl (glDrawArrays 0 36) w)"

text \<open>\<^verbatim>\<open>display\<close> (lines 220 to 228).\<close>

definition display :: "env \<Rightarrow> world \<Rightarrow> world" where
  "display e w =
     (let w = gl glClear w;
          w = gl (glUseProgram (shader_program w)) (w\<lparr>current_program := shader_program w\<rparr>);
          w = gl (glBindVertexArray (VAO w)) w;
          w = draw e w
      in gl glutSwapBuffers w)"

text \<open>
  \<^verbatim>\<open>glutMainLoop\<close> calls the two registered callbacks, one event at a time, on one
  thread: \<^verbatim>\<open>doSpecialKey\<close> for a special key with the mouse position, \<^verbatim>\<open>display\<close> for a
  repaint.
\<close>

datatype event = SpecialKey c_int c_int c_int | Redisplay

fun dispatch :: "env \<Rightarrow> event \<Rightarrow> world \<Rightarrow> world" where
  "dispatch e (SpecialKey key x y) w = doSpecialKey key x y w"
| "dispatch e Redisplay w = display e w"

fun glutMainLoop :: "env \<Rightarrow> event list \<Rightarrow> world \<Rightarrow> world" where
  "glutMainLoop e [] w = w"
| "glutMainLoop e (ev # evs) w = glutMainLoop e evs (dispatch e ev w)"

text \<open>
  \<^verbatim>\<open>main\<close> (lines 230 to 243), run on the events the window receives until it is closed.
\<close>

definition main :: "env \<Rightarrow> event list \<Rightarrow> c_int outcome" where
  "main e evs =
     (let w = gl glutInit start;
          w = gl glutInitDisplayMode w;
          w = gl (glutInitWindowSize 800 600) w;
          w = gl (glutCreateWindow ''OpenGL Cube with GLUT'') w
      in case init e w of
           Exits c w \<Rightarrow> Exits c w
         | Returns u w \<Rightarrow>
             Returns 0 (glutMainLoop e evs (gl glutSpecialFunc (gl glutDisplayFunc w))))"

subsection \<open>Observations used in the statements\<close>

text \<open>How a run ended, and the state it ended in.\<close>

fun exit_code :: "'a outcome \<Rightarrow> c_int option" where
  "exit_code (Exits c w) = Some c"
| "exit_code (Returns r w) = None"

fun final :: "'a outcome \<Rightarrow> world" where
  "final (Exits c w) = w"
| "final (Returns r w) = w"

text \<open>
  What \<^verbatim>\<open>read_shader_source\<close> returns for a path (it does not depend on the program
  state), the state after a source was submitted to the compiler, and the state after the
  program object was created, both stages attached and the program linked.
\<close>

definition source_of :: "env \<Rightarrow> string \<Rightarrow> byte list option" where
  "source_of e p = fst (read_shader_source e p start)"

definition submitted :: "env \<Rightarrow> stage \<Rightarrow> byte list \<Rightarrow> world \<Rightarrow> world" where
  "submitted e t src w =
     gl (glCompileShader (shader_handle e t))
       (gl (glShaderSource (shader_handle e t) (c_string src)) (gl (glCreateShader t) w))"

definition attached :: "env \<Rightarrow> GLuint \<Rightarrow> GLuint \<Rightarrow> world \<Rightarrow> world" where
  "attached e v f w =
     gl (glLinkProgram (program_handle e))
       (gl (glAttachShader (program_handle e) f)
         (gl (glAttachShader (program_handle e) v)
           (gl glCreateProgram (w\<lparr>shader_program := program_handle e\<rparr>))))"

text \<open>
  The three kinds of start-up failure, stated on the environment and not through the
  program. A shader source cannot be loaded when its file cannot be opened, the buffer of
  size + 1 bytes cannot be allocated, or fewer bytes are read than the file holds. A stage
  fails to compile when the driver reports a false compile status for the text of its
  file, the bytes before the first null byte. The program fails to link when the driver
  reports a false link status.
\<close>

datatype load_error = FileOpenError | AllocationError | ShortReadError

definition load_failure :: "env \<Rightarrow> string \<Rightarrow> load_error option" where
  "load_failure e p =
     (case files e p of
        None \<Rightarrow> Some FileOpenError
      | Some bytes \<Rightarrow>
          if \<not> malloc_ok e (length bytes + 1) then Some AllocationError
          else if fread_avail e p < length bytes then Some ShortReadError
          else None)"

definition cannot_load :: "env \<Rightarrow> string \<Rightarrow> bool" where
  "cannot_load e p = (case load_failure e p of None \<Rightarrow> False | Some err \<Rightarrow> True)"

definition fails_to_compile :: "env \<Rightarrow> stage \<Rightarrow> string \<Rightarrow> bool" where
  "fails_to_compile e t p =
     (case files e p of
        None \<Rightarrow> False
      | Some bytes \<Rightarrow> \<not> compile_status e t (takeWhile (\<lambda>b. b \<noteq> 0) bytes))"

definition startup_fails :: "env \<Rightarrow> bool" where
  "startup_fails e =
     (cannot_load e ''shaders/vertex.glsl''
      \<or> fails_to_compile e GL_VERTEX_SHADER ''shaders/vertex.glsl''
      \<or> cannot_load e ''shaders/fragment.glsl''
      \<or> fails_to_compile e GL_FRAGMENT_SHADER ''shaders/fragment.glsl''
      \<or> \<not> link_status e)"

text \<open>Counting the presses of one key in a sequence of events.\<close>

fun is_press :: "c_int \<Rightarrow> event \<Rightarrow> bool" where
  "is_press k (SpecialKey key x y) = (key = k)"
| "is_press k Redisplay = False"

definition presses :: "c_int \<Rightarrow> event list \<Rightarrow> nat" where
  "presses k evs = length (filter (is_press k) evs)"

text \<open>The logged calls that upload vertex data, and those that delete a shader object.\<close>

fun is_glBufferData :: "call \<Rightarrow> bool" where
  "is_glBufferData (glBufferData d) = True"
| "is_glBufferData c = False"

fun is_glDeleteShader :: "call \<Rightarrow> bool" where
  "is_glDeleteShader (glDeleteShader s) = True"
| "is_glDeleteShader c = False"

text \<open>
  A concrete environment in which start-up succeeds: both shader files exist, memory and
  reads do not fail, both stages compile and the program links.
\<close>

definition env_ok :: env where
  "env_ok = \<lparr>
     files = map_of [(''shaders/vertex.glsl'', [118, 111, 105, 100, 10]),
                     (''shaders/fragment.glsl'', [118, 111, 105, 100])],
     malloc_ok = (\<lambda>n. True),
     fread_avail = (\<lambda>p. 4096),
     shader_handle = (\<lambda>t. case t of GL_VERTEX_SHADER \<Rightarrow> 1 | GL_FRAGMENT_SHADER \<Rightarrow> 2),
     compile_status = (\<lambda>t src. True),
     shader_info_log = (\<lambda>t src. []),
     program_handle = 3,
     link_status = True,
     program_info_log = [],
     model_location = 0,
     vao_handle = 1,
     vbo_handle = 1 \<rparr>"

section \<open>Properties\<close>

subsection \<open>Field lemmas\<close>

lemmas glut_keys =
  GLUT_KEY_LEFT_def GLUT_KEY_UP_def GLUT_KEY_RIGHT_def GLUT_KEY_DOWN_def
  GLUT_KEY_PAGE_UP_def GLUT_KEY_PAGE_DOWN_def GLUT_KEY_HOME_def

lemma GLfloat_of_int_exact: "\<bar>n\<bar> < 2 ^ 24 \<Longrightarrow> GLfloat_of_int n = of_int n"
proof -
  assume "\<bar>n\<bar> < 2 ^ 24"
  then have "float_shift (nat \<bar>n\<bar>) = 0"
    by (simp add: float_shift_def)
  then have "GLfloat_of_int n = of_int (sgn n * \<bar>n\<bar>)"
    by (simp add: GLfloat_of_int_def round_half_even_def Let_def)
  then show ?thesis
    by (simp only: sgn_mult_abs)
qed

lemma GLfloat_of_int_rounds:
  "GLfloat_of_int 16777217 = 16777216" "GLfloat_of_int (- 16777219) = - 16777220"
  "GLfloat_of_int 2147483647 = 2147483648" "GLfloat_of_int (- 2147483648) = - 2147483648"
  by (simp_all add: GLfloat_of_int_def round_half_even_def float_shift_def Let_def)

lemma gl_fields [simp]:
  "rotateX (gl c w) = rotateX w" "rotateY (gl c w) = rotateY w" "rotateZ (gl c w) = rotateZ w"
  "shader_program (gl c w) = shader_program w" "VAO (gl c w) = VAO w" "VBO (gl c w) = VBO w"
  "current_program (gl c w) = current_program w" "modelview (gl c w) = modelview w"
  "uniforms (gl c w) = uniforms w" "array_buffer (gl c w) = array_buffer w"
  "buffer_store (gl c w) = buffer_store w" "console (gl c w) = console w"
  "calls (gl c w) = calls w @ [c]"
  by (simp_all add: gl_def)

lemma printf_fields [simp]:
  "rotateX (printf s w) = rotateX w" "rotateY (printf s w) = rotateY w"
  "rotateZ (printf s w) = rotateZ w"
  "shader_program (printf s w) = shader_program w" "VAO (printf s w) = VAO w"
  "VBO (printf s w) = VBO w"
  "current_program (printf s w) = current_program w" "modelview (printf s w) = modelview w"
  "uniforms (printf s w) = uniforms w" "array_buffer (printf s w) = array_buffer w"
  "buffer_store (printf s w) = buffer_store w" "console (printf s w) = console w @ [s]"
  "calls (printf s w) = calls w"
  by (simp_all add: printf_def)

lemma mult_matrix_fields [simp]:
  "rotateX (mult_matrix m w) = rotateX w" "rotateY (mult_matrix m w) = rotateY w"
  "rotateZ (mult_matrix m w) = rotateZ w"
  "shader_program (mult_matrix m w) = shader_program w" "VAO (mult_matrix m w) = VAO w"
  "VBO (mult_matrix m w) = VBO w"
  "current_program (mult_matrix m w) = current_program w"
  "modelview (mult_matrix m w) = modelview w @ [m]"
  "uniforms (mult_matrix m w) = uniforms w" "array_buffer (mult_matrix m w) = array_buffer w"
  "buffer_store (mult_matrix m w) = buffer_store w" "console (mult_matrix m w) = console w"
  "calls (mult_matrix m w) = calls w"
  by (simp_all add: mult_matrix_def)

lemma uniform_matrix_fields [simp]:
  "rotateX (uniform_matrix l m w) = rotateX w" "rotateY (uniform_matrix l m w) = rotateY w"
  "rotateZ (uniform_matrix l m w) = rotateZ w"
  "shader_program (uniform_matrix l m w) = shader_program w"
  "VAO (uniform_matrix l m w) = VAO w" "VBO (uniform_matrix l m w) = VBO w"
  "current_program (uniform_matrix l m w) = current_program w"
  "modelview (uniform_matrix l m w) = modelview w"
  "uniforms (uniform_matrix l m w) =
     (if l = - 1 then uniforms w else (uniforms w)((current_program w, l) \<mapsto> m))"
  "array_buffer (uniform_matrix l m w) = array_buffer w"
  "buffer_store (uniform_matrix l m w) = buffer_store w"
  "console (uniform_matrix l m w) = console w"
  "calls (uniform_matrix l m w) = calls w @ [glUniformMatrix4fv l m]"
  by (simp_all add: uniform_matrix_def)

lemma draw_fields [simp]:
  "rotateX (draw e w) = rotateX w" "rotateY (draw e w) = rotateY w"
  "rotateZ (draw e w) = rotateZ w"
  "shader_program (draw e w) = shader_program w" "VAO (draw e w) = VAO w"
  "VBO (draw e w) = VBO w" "array_buffer (draw e w) = array_buffer w"
  "buffer_store (draw e w) = buffer_store w" "console (draw e w) = console w"
  by (simp_all add: draw_def Let_def)

lemma draw_calls:
  "calls (draw e w) = calls w @
     [glUseProgram (shader_program w), glMatrixMode_MODELVIEW, glLoadIdentity,
      glRotatef (GLfloat_of_int (sint (rotateX w))) 1 0 0,
      glRotatef (GLfloat_of_int (sint (rotateY w))) 0 1 0,
      glRotatef (GLfloat_of_int (sint (rotateZ w))) 0 0 1,
      glUniformMatrix4fv (model_location e)
        [Rotatef (GLfloat_of_int (sint (rotateX w))) 1 0 0,
         Rotatef (GLfloat_of_int (sint (rotateY w))) 0 1 0,
         Rotatef (GLfloat_of_int (sint (rotateZ w))) 0 0 1],
      glBindVertexArray (VAO w), glScalef (1/2) (1/2) (1/2), glDrawArrays 0 36]"
  by (simp add: draw_def Let_def)

lemma draw_uniforms:
  "uniforms (draw e w) =
     (if model_location e = - 1 then uniforms w
      else (uniforms w)((shader_program w, model_location e) \<mapsto>
        [Rotatef (GLfloat_of_int (sint (rotateX w))) 1 0 0,
         Rotatef (GLfloat_of_int (sint (rotateY w))) 0 1 0,
         Rotatef (GLfloat_of_int (sint (rotateZ w))) 0 0 1]))"
  by (simp add: draw_def Let_def)

lemma draw_modelview:
  "modelview (draw e w) =
     [Rotatef (GLfloat_of_int (sint (rotateX w))) 1 0 0,
      Rotatef (GLfloat_of_int (sint (rotateY w))) 0 1 0,
      Rotatef (GLfloat_of_int (sint (rotateZ w))) 0 0 1, Scalef (1/2) (1/2) (1/2)]"
  by (simp add: draw_def Let_def)

lemma display_fields [simp]:
  "rotateX (display e w) = rotateX w" "rotateY (display e w) = rotateY w"
  "rotateZ (display e w) = rotateZ w"
  "shader_program (display e w) = shader_program w" "VAO (display e w) = VAO w"
  "VBO (display e w) = VBO w" "array_buffer (display e w) = array_buffer w"
  "buffer_store (display e w) = buffer_store w" "console (display e w) = console w"
  by (simp_all add: display_def Let_def)

lemma display_calls:
  "calls (display e w) = calls w @
     [glClear, glUseProgram (shader_program w), glBindVertexArray (VAO w),
      glUseProgram (shader_program w), glMatrixMode_MODELVIEW, glLoadIdentity,
      glRotatef (GLfloat_of_int (sint (rotateX w))) 1 0 0,
      glRotatef (GLfloat_of_int (sint (rotateY w))) 0 1 0,
      glRotatef (GLfloat_of_int (sint (rotateZ w))) 0 0 1,
      glUniformMatrix4fv (model_location e)
        [Rotatef (GLfloat_of_int (sint (rotateX w))) 1 0 0,
         Rotatef (GLfloat_of_int (sint (rotateY w))) 0 1 0,
         Rotatef (GLfloat_of_int (sint (rotateZ w))) 0 0 1],
      glBindVertexArray (VAO w), glScalef (1/2) (1/2) (1/2), glDrawArrays 0 36,
      glutSwapBuffers]"
  by (simp add: display_def Let_def draw_calls)

lemma doSpecialKey_fields [simp]:
  "shader_program (doSpecialKey key x y w) = shader_program w"
  "VAO (doSpecialKey key x y w) = VAO w" "VBO (doSpecialKey key x y w) = VBO w"
  "current_program (doSpecialKey key x y w) = current_program w"
  "modelview (doSpecialKey key x y w) = modelview w"
  "uniforms (doSpecialKey key x y w) = uniforms w"
  "array_buffer (doSpecialKey key x y w) = array_buffer w"
  "buffer_store (doSpecialKey key x y w) = buffer_store w"
  "console (doSpecialKey key x y w) = console w"
  by (simp_all add: doSpecialKey_def)

lemma doSpecialKey_calls:
  "calls (doSpecialKey key x y w) =
     (if key \<in> {GLUT_KEY_LEFT, GLUT_KEY_RIGHT, GLUT_KEY_UP, GLUT_KEY_DOWN,
                 GLUT_KEY_PAGE_UP, GLUT_KEY_PAGE_DOWN, GLUT_KEY_HOME}
      then calls w @ [glutPostRedisplay] else calls w)"
  by (simp add: doSpecialKey_def glut_keys)

lemma submitted_fields [simp]:
  "rotateX (submitted e t src w) = rotateX w" "rotateY (submitted e t src w) = rotateY w"
  "rotateZ (submitted e t src w) = rotateZ w"
  "shader_program (submitted e t src w) = shader_program w"
  "VAO (submitted e t src w) = VAO w" "VBO (submitted e t src w) = VBO w"
  "current_program (submitted e t src w) = current_program w"
  "modelview (submitted e t src w) = modelview w"
  "uniforms (submitted e t src w) = uniforms w"
  "array_buffer (submitted e t src w) = array_buffer w"
  "buffer_store (submitted e t src w) = buffer_store w"
  "console (submitted e t src w) = console w"
  "calls (submitted e t src w) = calls w @
     [glCreateShader t, glShaderSource (shader_handle e t) (c_string src),
      glCompileShader (shader_handle e t)]"
  by (simp_all add: submitted_def)

lemma attached_fields [simp]:
  "rotateX (attached e v f w) = rotateX w" "rotateY (attached e v f w) = rotateY w"
  "rotateZ (attached e v f w) = rotateZ w"
  "shader_program (attached e v f w) = program_handle e"
  "VAO (attached e v f w) = VAO w" "VBO (attached e v f w) = VBO w"
  "current_program (attached e v f w) = current_program w"
  "modelview (attached e v f w) = modelview w"
  "uniforms (attached e v f w) = uniforms w"
  "array_buffer (attached e v f w) = array_buffer w"
  "buffer_store (attached e v f w) = buffer_store w"
  "console (attached e v f w) = console w"
  "calls (attached e v f w) = calls w @
     [glCreateProgram, glAttachShader (program_handle e) v,
      glAttachShader (program_handle e) f, glLinkProgram (program_handle e)]"
  by (simp_all add: attached_def)

lemma buffer_data_fields [simp]:
  "rotateX (buffer_data d w) = rotateX w" "rotateY (buffer_data d w) = rotateY w"
  "rotateZ (buffer_data d w) = rotateZ w"
  "shader_program (buffer_data d w) = shader_program w"
  "VAO (buffer_data d w) = VAO w" "VBO (buffer_data d w) = VBO w"
  "current_program (buffer_data d w) = current_program w"
  "modelview (buffer_data d w) = modelview w"
  "uniforms (buffer_data d w) = uniforms w"
  "array_buffer (buffer_data d w) = array_buffer w"
  "buffer_store (buffer_data d w) = (buffer_store w)(array_buffer w \<mapsto> d)"
  "console (buffer_data d w) = console w"
  "calls (buffer_data d w) = calls w @ [glBufferData d]"
  by (simp_all add: buffer_data_def)

lemma init_buffers_fields [simp]:
  "rotateX (init_buffers e w) = rotateX w" "rotateY (init_buffers e w) = rotateY w"
  "rotateZ (init_buffers e w) = rotateZ w"
  "shader_program (init_buffers e w) = shader_program w"
  "VAO (init_buffers e w) = vao_handle e" "VBO (init_buffers e w) = vbo_handle e"
  "current_program (init_buffers e w) = current_program w"
  "modelview (init_buffers e w) = modelview w"
  "uniforms (init_buffers e w) = uniforms w"
  "array_buffer (init_buffers e w) = vbo_handle e"
  "buffer_store (init_buffers e w) = (buffer_store w)(vbo_handle e \<mapsto> vertices)"
  "console (init_buffers e w) = console w"
  "calls (init_buffers e w) = calls w @
     [glGenVertexArrays, glGenBuffers, glBindVertexArray (vao_handle e),
      glBindBuffer (vbo_handle e), glBufferData vertices, glVertexAttribPointer,
      glEnableVertexAttribArray]"
  by (simp_all add: init_buffers_def Let_def)

subsection \<open>Key handling\<close>

lemma doSpecialKey_rotate:
  "rotateX (doSpecialKey key x y w) =
     (if key = GLUT_KEY_HOME then 0
      else rotateX w + 15 * of_bool (key = GLUT_KEY_DOWN) - 15 * of_bool (key = GLUT_KEY_UP))"
  "rotateY (doSpecialKey key x y w) =
     (if key = GLUT_KEY_HOME then 0
      else rotateY w + 15 * of_bool (key = GLUT_KEY_RIGHT) - 15 * of_bool (key = GLUT_KEY_LEFT))"
  "rotateZ (doSpecialKey key x y w) =
     (if key = GLUT_KEY_HOME then 0
      else rotateZ w + 15 * of_bool (key = GLUT_KEY_PAGE_UP)
             - 15 * of_bool (key = GLUT_KEY_PAGE_DOWN))"
  by (simp_all add: doSpecialKey_def glut_keys)

lemma rotation_doSpecialKey:
  "rotation (doSpecialKey key x y w) =
     (if key = GLUT_KEY_HOME then (0, 0, 0)
      else (rotateX w + 15 * of_bool (key = GLUT_KEY_DOWN) - 15 * of_bool (key = GLUT_KEY_UP),
            rotateY w + 15 * of_bool (key = GLUT_KEY_RIGHT) - 15 * of_bool (key = GLUT_KEY_LEFT),
            rotateZ w + 15 * of_bool (key = GLUT_KEY_PAGE_UP)
              - 15 * of_bool (key = GLUT_KEY_PAGE_DOWN)))"
  by (simp add: rotation_def doSpecialKey_rotate)

lemma rotation_fields:
  "rotateX w = fst (rotation w)" "rotateY w = fst (snd (rotation w))"
  "rotateZ w = snd (snd (rotation w))"
  by (simp_all add: rotation_def)

lemma doSpecialKey_rotation_cong:
  "rotation v = rotation w \<Longrightarrow>
   rotation (doSpecialKey key x' y' v) = rotation (doSpecialKey key x y w)"
  by (simp add: rotation_doSpecialKey rotation_fields)

text \<open>
  Claim C1. The handler acts on the three angles as a reducer with a step of 15: Left
  subtracts 15 from Y, Right adds 15 to Y, Down adds 15 to X, Up subtracts 15 from X,
  Page Up adds 15 to Z, Page Down subtracts 15 from Z, Home sets all three to 0. The new
  angles depend on the old angles and the key only. From angles (0, 0, 0) the keys Right,
  Right, Down give (X = 15, Y = 30, Z = 0), and Home after them gives (0, 0, 0).
\<close>

theorem doSpecialKey_reducer:
  "rotation (doSpecialKey GLUT_KEY_LEFT x y w) = (rotateX w, rotateY w - 15, rotateZ w)
   \<and> rotation (doSpecialKey GLUT_KEY_RIGHT x y w) = (rotateX w, rotateY w + 15, rotateZ w)
   \<and> rotation (doSpecialKey GLUT_KEY_DOWN x y w) = (rotateX w + 15, rotateY w, rotateZ w)
   \<and> rotation (doSpecialKey GLUT_KEY_UP x y w) = (rotateX w - 15, rotateY w, rotateZ w)
   \<and> rotation (doSpecialKey GLUT_KEY_PAGE_UP x y w) = (rotateX w, rotateY w, rotateZ w + 15)
   \<and> rotation (doSpecialKey GLUT_KEY_PAGE_DOWN x y w) = (rotateX w, rotateY w, rotateZ w - 15)
   \<and> rotation (doSpecialKey GLUT_KEY_HOME x y w) = (0, 0, 0)
   \<and> (rotation v = rotation w \<longrightarrow>
        rotation (doSpecialKey key x' y' v) = rotation (doSpecialKey key x y w))
   \<and> angles (glutMainLoop e
         [SpecialKey GLUT_KEY_RIGHT x1 y1, SpecialKey GLUT_KEY_RIGHT x2 y2,
          SpecialKey GLUT_KEY_DOWN x3 y3]
         (w\<lparr>rotateX := 0, rotateY := 0, rotateZ := 0\<rparr>)) = (15, 30, 0)
   \<and> angles (glutMainLoop e
         [SpecialKey GLUT_KEY_RIGHT x1 y1, SpecialKey GLUT_KEY_RIGHT x2 y2,
          SpecialKey GLUT_KEY_DOWN x3 y3, SpecialKey GLUT_KEY_HOME x4 y4]
         (w\<lparr>rotateX := 0, rotateY := 0, rotateZ := 0\<rparr>)) = (0, 0, 0)"
proof -
  have table:
    "rotation (doSpecialKey GLUT_KEY_LEFT x y w) = (rotateX w, rotateY w - 15, rotateZ w)"
    "rotation (doSpecialKey GLUT_KEY_RIGHT x y w) = (rotateX w, rotateY w + 15, rotateZ w)"
    "rotation (doSpecialKey GLUT_KEY_DOWN x y w) = (rotateX w + 15, rotateY w, rotateZ w)"
    "rotation (doSpecialKey GLUT_KEY_UP x y w) = (rotateX w - 15, rotateY w, rotateZ w)"
    "rotation (doSpecialKey GLUT_KEY_PAGE_UP x y w) = (rotateX w, rotateY w, rotateZ w + 15)"
    "rotation (doSpecialKey GLUT_KEY_PAGE_DOWN x y w) = (rotateX w, rotateY w, rotateZ w - 15)"
    "rotation (doSpecialKey GLUT_KEY_HOME x y w) = (0, 0, 0)"
    by (simp_all add: rotation_doSpecialKey glut_keys)
  have pure: "rotation v = rotation w \<longrightarrow>
      rotation (doSpecialKey key x' y' v) = rotation (doSpecialKey key x y w)"
    by (simp add: doSpecialKey_rotation_cong)
  let ?w0 = "w\<lparr>rotateX := 0, rotateY := 0, rotateZ := 0\<rparr>"
  let ?w1 = "doSpecialKey GLUT_KEY_RIGHT x1 y1 ?w0"
  let ?w2 = "doSpecialKey GLUT_KEY_RIGHT x2 y2 ?w1"
  let ?w3 = "doSpecialKey GLUT_KEY_DOWN x3 y3 ?w2"
  let ?w4 = "doSpecialKey GLUT_KEY_HOME x4 y4 ?w3"
  have r3: "rotation ?w3 = (15, 30, 0)"
    by (simp add: rotation_def doSpecialKey_rotate glut_keys)
  have r4: "rotation ?w4 = (0, 0, 0)"
    by (simp add: rotation_doSpecialKey)
  have s3: "angles ?w3 = (15, 30, 0)"
    using r3 by (simp add: angles_def rotation_def)
  have s4: "angles ?w4 = (0, 0, 0)"
    using r4 by (simp add: angles_def rotation_def)
  show ?thesis
    using table pure s3 s4 by simp
qed

theorem doSpecialKey_reducer_witness:
  "rotation (start\<lparr>console := [''x'']\<rparr>) = rotation start
   \<and> rotation (doSpecialKey GLUT_KEY_UP 640 480 (start\<lparr>console := [''x'']\<rparr>))
       = rotation (doSpecialKey GLUT_KEY_UP 0 0 start)
   \<and> rotation (doSpecialKey GLUT_KEY_UP 0 0 start) = (- 15, 0, 0)"
proof -
  have same: "rotation (start\<lparr>console := [''x'']\<rparr>) = rotation start"
    by (simp add: rotation_def)
  have up: "rotation (doSpecialKey GLUT_KEY_UP 0 0 start) = (- 15, 0, 0)"
    using doSpecialKey_reducer [of 0 0 start]
    by (simp add: start_def)
  from doSpecialKey_reducer
         [of 0 0 start "start\<lparr>console := [''x'']\<rparr>" GLUT_KEY_UP 640 480]
  have "rotation (doSpecialKey GLUT_KEY_UP 640 480 (start\<lparr>console := [''x'']\<rparr>))
          = rotation (doSpecialKey GLUT_KEY_UP 0 0 start)"
    using same by simp
  with same up show ?thesis by simp
qed

text \<open>
  Claim C9. Home pressed at angles (0, 0, 0) leaves them at (0, 0, 0), and Home applied
  twice from any state gives the same angles as Home applied once.
\<close>

theorem home_idempotent:
  "rotation (doSpecialKey GLUT_KEY_HOME x y (w\<lparr>rotateX := 0, rotateY := 0, rotateZ := 0\<rparr>))
     = (0, 0, 0)
   \<and> angles (doSpecialKey GLUT_KEY_HOME x y (w\<lparr>rotateX := 0, rotateY := 0, rotateZ := 0\<rparr>))
     = (0, 0, 0)
   \<and> rotation (doSpecialKey GLUT_KEY_HOME x' y' (doSpecialKey GLUT_KEY_HOME x y w))
     = rotation (doSpecialKey GLUT_KEY_HOME x y w)"
proof -
  have home: "rotation (doSpecialKey GLUT_KEY_HOME a b v) = (0, 0, 0)" for a b v
    by (simp add: rotation_doSpecialKey)
  have "angles (doSpecialKey GLUT_KEY_HOME a b v) = (0, 0, 0)" for a b v
    using home [of a b v] by (simp add: angles_def rotation_def)
  with home show ?thesis by simp
qed

text \<open>
  Claim C10. The handler ignores the mouse coordinates: with the same key and the same
  state, any two pairs of coordinates give the same resulting state, the angles and the
  redraw request included.
\<close>

theorem doSpecialKey_ignores_mouse:
  "doSpecialKey key x1 y1 w = doSpecialKey key x2 y2 w"
  by (simp add: doSpecialKey_def)

text \<open>
  Claim C5. A key outside Left, Right, Up, Down, PageUp, PageDown, Home leaves the whole
  state unchanged: the three angles stay and no redraw is requested. Every key of the
  seven, Home included, requests exactly one redraw.
\<close>

theorem unrecognized_key_noop:
  "(key \<notin> {GLUT_KEY_LEFT, GLUT_KEY_RIGHT, GLUT_KEY_UP, GLUT_KEY_DOWN,
            GLUT_KEY_PAGE_UP, GLUT_KEY_PAGE_DOWN, GLUT_KEY_HOME}
      \<longrightarrow> doSpecialKey key x y w = w)
   \<and> (key \<in> {GLUT_KEY_LEFT, GLUT_KEY_RIGHT, GLUT_KEY_UP, GLUT_KEY_DOWN,
              GLUT_KEY_PAGE_UP, GLUT_KEY_PAGE_DOWN, GLUT_KEY_HOME}
      \<longrightarrow> calls (doSpecialKey key x y w) = calls w @ [glutPostRedisplay])"
proof -
  have other: "doSpecialKey key x y w = w"
    if "key \<notin> {GLUT_KEY_LEFT, GLUT_KEY_RIGHT, GLUT_KEY_UP, GLUT_KEY_DOWN,
            GLUT_KEY_PAGE_UP, GLUT_KEY_PAGE_DOWN, GLUT_KEY_HOME}"
    using that by (simp add: doSpecialKey_def)
  have known: "calls (doSpecialKey key x y w) = calls w @ [glutPostRedisplay]"
    if "key \<in> {GLUT_KEY_LEFT, GLUT_KEY_RIGHT, GLUT_KEY_UP, GLUT_KEY_DOWN,
            GLUT_KEY_PAGE_UP, GLUT_KEY_PAGE_DOWN, GLUT_KEY_HOME}"
    using that by (simp only: doSpecialKey_calls if_True)
  from other known show ?thesis by blast
qed

theorem unrecognized_key_noop_witness:
  "doSpecialKey 1 320 240 start = start
   \<and> calls (doSpecialKey 1 320 240 start) = []
   \<and> calls (doSpecialKey GLUT_KEY_HOME 320 240 start) = [glutPostRedisplay]
   \<and> calls (doSpecialKey GLUT_KEY_UP 320 240 start) = [glutPostRedisplay]"
proof -
  have "doSpecialKey 1 320 240 start = start"
    using unrecognized_key_noop [of 1 320 240 start] by (simp add: glut_keys)
  moreover have "calls (doSpecialKey GLUT_KEY_HOME 320 240 start) = [glutPostRedisplay]"
    using unrecognized_key_noop [of GLUT_KEY_HOME 320 240 start] by (simp add: start_def)
  moreover have "calls (doSpecialKey GLUT_KEY_UP 320 240 start) = [glutPostRedisplay]"
    using unrecognized_key_noop [of GLUT_KEY_UP 320 240 start] by (simp add: start_def)
  ultimately show ?thesis by (simp add: start_def)
qed

subsection \<open>Sequences of key presses\<close>

lemma presses_Cons: "presses k (ev # evs) = presses k [ev] + presses k evs"
  by (simp add: presses_def)

lemma presses_replicate: "presses k (replicate n ev) = (if is_press k ev then n else 0)"
  by (simp add: presses_def)

lemma list_all_replicate: "P x \<Longrightarrow> list_all P (replicate n x)"
  by (simp add: list_all_iff)

lemma rotation_dispatch:
  assumes "\<not> is_press GLUT_KEY_HOME ev"
  shows "rotation (dispatch e ev w) =
     (rotateX w + 15 * of_nat (presses GLUT_KEY_DOWN [ev])
        - 15 * of_nat (presses GLUT_KEY_UP [ev]),
      rotateY w + 15 * of_nat (presses GLUT_KEY_RIGHT [ev])
        - 15 * of_nat (presses GLUT_KEY_LEFT [ev]),
      rotateZ w + 15 * of_nat (presses GLUT_KEY_PAGE_UP [ev])
        - 15 * of_nat (presses GLUT_KEY_PAGE_DOWN [ev]))"
proof (cases ev)
  case (SpecialKey key x y)
  with assms show ?thesis
    by (simp add: rotation_doSpecialKey presses_def glut_keys)
next
  case Redisplay
  then show ?thesis
    by (simp add: presses_def rotation_def)
qed

text \<open>
  The loop invariant of the event loop for the angles: without a Home press, each angle
  is its initial value plus 15 for every press of its incrementing key and minus 15 for
  every press of its decrementing key, in 32-bit arithmetic. Repaints change nothing.
\<close>

lemma rotation_glutMainLoop:
  "list_all (\<lambda>ev. \<not> is_press GLUT_KEY_HOME ev) evs \<Longrightarrow>
   rotation (glutMainLoop e evs w) =
     (rotateX w + 15 * of_nat (presses GLUT_KEY_DOWN evs)
        - 15 * of_nat (presses GLUT_KEY_UP evs),
      rotateY w + 15 * of_nat (presses GLUT_KEY_RIGHT evs)
        - 15 * of_nat (presses GLUT_KEY_LEFT evs),
      rotateZ w + 15 * of_nat (presses GLUT_KEY_PAGE_UP evs)
        - 15 * of_nat (presses GLUT_KEY_PAGE_DOWN evs))"
proof (induction evs arbitrary: w)
  case Nil
  then show ?case by (simp add: presses_def rotation_def)
next
  case (Cons ev evs)
  let ?w = "dispatch e ev w"
  have hd: "\<not> is_press GLUT_KEY_HOME ev"
    and tl: "list_all (\<lambda>ev. \<not> is_press GLUT_KEY_HOME ev) evs"
    using Cons.prems by simp_all
  have step:
    "rotateX ?w = rotateX w + 15 * of_nat (presses GLUT_KEY_DOWN [ev])
       - 15 * of_nat (presses GLUT_KEY_UP [ev])"
    "rotateY ?w = rotateY w + 15 * of_nat (presses GLUT_KEY_RIGHT [ev])
       - 15 * of_nat (presses GLUT_KEY_LEFT [ev])"
    "rotateZ ?w = rotateZ w + 15 * of_nat (presses GLUT_KEY_PAGE_UP [ev])
       - 15 * of_nat (presses GLUT_KEY_PAGE_DOWN [ev])"
    using rotation_dispatch [OF hd, of e w] by (simp_all add: rotation_def)
  have "rotation (glutMainLoop e (ev # evs) w) = rotation (glutMainLoop e evs ?w)"
    by simp
  also have "\<dots> =
     (rotateX ?w + 15 * of_nat (presses GLUT_KEY_DOWN evs)
        - 15 * of_nat (presses GLUT_KEY_UP evs),
      rotateY ?w + 15 * of_nat (presses GLUT_KEY_RIGHT evs)
        - 15 * of_nat (presses GLUT_KEY_LEFT evs),
      rotateZ ?w + 15 * of_nat (presses GLUT_KEY_PAGE_UP evs)
        - 15 * of_nat (presses GLUT_KEY_PAGE_DOWN evs))"
    by (rule Cons.IH [OF tl])
  also have "\<dots> =
     (rotateX w + 15 * of_nat (presses GLUT_KEY_DOWN (ev # evs))
        - 15 * of_nat (presses GLUT_KEY_UP (ev # evs)),
      rotateY w + 15 * of_nat (presses GLUT_KEY_RIGHT (ev # evs))
        - 15 * of_nat (presses GLUT_KEY_LEFT (ev # evs)),
      rotateZ w + 15 * of_nat (presses GLUT_KEY_PAGE_UP (ev # evs))
        - 15 * of_nat (presses GLUT_KEY_PAGE_DOWN (ev # evs)))"
    unfolding step presses_Cons [of _ ev evs] of_nat_add by (simp add: algebra_simps)
  finally show ?case .
qed

text \<open>A sequence made of presses of two keys has no press of a third key.\<close>

lemma presses_other:
  "list_all (\<lambda>ev. is_press a ev \<or> is_press b ev) evs \<Longrightarrow> k \<noteq> a \<Longrightarrow> k \<noteq> b \<Longrightarrow>
   presses k evs = 0"
proof (induction evs)
  case Nil
  then show ?case by (simp add: presses_def)
next
  case (Cons ev evs)
  then show ?case
    by (cases ev) (auto simp: presses_def)
qed

lemma no_home:
  "list_all (\<lambda>ev. is_press a ev \<or> is_press b ev) evs \<Longrightarrow>
   a \<noteq> GLUT_KEY_HOME \<Longrightarrow> b \<noteq> GLUT_KEY_HOME \<Longrightarrow>
   list_all (\<lambda>ev. \<not> is_press GLUT_KEY_HOME ev) evs"
proof (induction evs)
  case Nil
  then show ?case by simp
next
  case (Cons ev evs)
  then show ?case
    by (cases ev) auto
qed

lemma sint_in_range:
  "- (2 ^ 31) \<le> n \<Longrightarrow> n < 2 ^ 31 \<Longrightarrow> sint (word_of_int n :: c_int) = n"
  by (simp add: sint_sbintrunc' signed_take_bit_int_eq_self)

lemma sint_word_of_int_exact:
  "v = (word_of_int n :: c_int) \<Longrightarrow> - (2 ^ 31) \<le> n \<and> n < 2 ^ 31 \<longrightarrow> sint v = n"
  by (simp add: sint_in_range)

text \<open>
  Claim C4, as amended. For every sequence of events made only of Left and Right presses,
  run from angles (0, 0, 0), the Y angle is 15 * (rights - lefts) as a 32-bit int: equal
  to it modulo 2 ^ 32, and equal to it exactly whenever 15 * (rights - lefts) lies
  between - 2 ^ 31 and 2 ^ 31 - 1; X and Z remain 0. The same holds for X with Down and
  Up, and for Z with PageUp and PageDown.
\<close>

theorem key_presses_accumulate:
  "(list_all (\<lambda>ev. is_press GLUT_KEY_LEFT ev \<or> is_press GLUT_KEY_RIGHT ev) evs \<longrightarrow>
      rotateY (glutMainLoop e evs (w\<lparr>rotateX := 0, rotateY := 0, rotateZ := 0\<rparr>))
        = word_of_int (15 * (int (presses GLUT_KEY_RIGHT evs) - int (presses GLUT_KEY_LEFT evs)))
      \<and> (- (2 ^ 31) \<le> 15 * (int (presses GLUT_KEY_RIGHT evs) - int (presses GLUT_KEY_LEFT evs))
           \<and> 15 * (int (presses GLUT_KEY_RIGHT evs) - int (presses GLUT_KEY_LEFT evs)) < 2 ^ 31
          \<longrightarrow> sint (rotateY (glutMainLoop e evs (w\<lparr>rotateX := 0, rotateY := 0, rotateZ := 0\<rparr>)))
                = 15 * (int (presses GLUT_KEY_RIGHT evs) - int (presses GLUT_KEY_LEFT evs)))
      \<and> rotateX (glutMainLoop e evs (w\<lparr>rotateX := 0, rotateY := 0, rotateZ := 0\<rparr>)) = 0
      \<and> rotateZ (glutMainLoop e evs (w\<lparr>rotateX := 0, rotateY := 0, rotateZ := 0\<rparr>)) = 0)
   \<and> (list_all (\<lambda>ev. is_press GLUT_KEY_UP ev \<or> is_press GLUT_KEY_DOWN ev) evs \<longrightarrow>
      rotateX (glutMainLoop e evs (w\<lparr>rotateX := 0, rotateY := 0, rotateZ := 0\<rparr>))
        = word_of_int (15 * (int (presses GLUT_KEY_DOWN evs) - int (presses GLUT_KEY_UP evs)))
      \<and> (- (2 ^ 31) \<le> 15 * (int (presses GLUT_KEY_DOWN evs) - int (presses GLUT_KEY_UP evs))
           \<and> 15 * (int (presses GLUT_KEY_DOWN evs) - int (presses GLUT_KEY_UP evs)) < 2 ^ 31
          \<longrightarrow> sint (rotateX (glutMainLoop e evs (w\<lparr>rotateX := 0, rotateY := 0, rotateZ := 0\<rparr>)))
                = 15 * (int (presses GLUT_KEY_DOWN evs) - int (presses GLUT_KEY_UP evs)))
      \<and> rotateY (glutMainLoop e evs (w\<lparr>rotateX := 0, rotateY := 0, rotateZ := 0\<rparr>)) = 0
      \<and> rotateZ (glutMainLoop e evs (w\<lparr>rotateX := 0, rotateY := 0, rotateZ := 0\<rparr>)) = 0)
   \<and> (list_all (\<lambda>ev. is_press GLUT_KEY_PAGE_DOWN ev \<or> is_press GLUT_KEY_PAGE_UP ev) evs \<longrightarrow>
      rotateZ (glutMainLoop e evs (w\<lparr>rotateX := 0, rotateY := 0, rotateZ := 0\<rparr>))
        = word_of_int (15 * (int (presses GLUT_KEY_PAGE_UP evs) - int (presses GLUT_KEY_PAGE_DOWN evs)))
      \<and> (- (2 ^ 31) \<le> 15 * (int (presses GLUT_KEY_PAGE_UP evs) - int (presses GLUT_KEY_PAGE_DOWN evs))
           \<and> 15 * (int (presses GLUT_KEY_PAGE_UP evs) - int (presses GLUT_KEY_PAGE_DOWN evs)) < 2 ^ 31
          \<longrightarrow> sint (rotateZ (glutMainLoop e evs (w\<lparr>rotateX := 0, rotateY := 0, rotateZ := 0\<rparr>)))
                = 15 * (int (presses GLUT_KEY_PAGE_UP evs) - int (presses GLUT_KEY_PAGE_DOWN evs)))
      \<and> rotateX (glutMainLoop e evs (w\<lparr>rotateX := 0, rotateY := 0, rotateZ := 0\<rparr>)) = 0
      \<and> rotateY (glutMainLoop e evs (w\<lparr>rotateX := 0, rotateY := 0, rotateZ := 0\<rparr>)) = 0)"
proof -
  let ?w0 = "w\<lparr>rotateX := 0, rotateY := 0, rotateZ := 0\<rparr>"
  let ?w' = "glutMainLoop e evs ?w0"
  have Y: "rotateY ?w' = word_of_int (15 * (int (presses GLUT_KEY_RIGHT evs)
                - int (presses GLUT_KEY_LEFT evs)))
           \<and> rotateX ?w' = 0 \<and> rotateZ ?w' = 0"
    if h: "list_all (\<lambda>ev. is_press GLUT_KEY_LEFT ev \<or> is_press GLUT_KEY_RIGHT ev) evs"
  proof -
    have nh: "list_all (\<lambda>ev. \<not> is_press GLUT_KEY_HOME ev) evs"
      using no_home [OF h] by (simp add: glut_keys)
    have z: "presses GLUT_KEY_DOWN evs = 0" "presses GLUT_KEY_UP evs = 0"
      "presses GLUT_KEY_PAGE_UP evs = 0" "presses GLUT_KEY_PAGE_DOWN evs = 0"
      using presses_other [OF h] by (simp_all add: glut_keys)
    show ?thesis
      using rotation_glutMainLoop [OF nh, of e ?w0] by (simp add: rotation_def z)
  qed
  have X: "rotateX ?w' = word_of_int (15 * (int (presses GLUT_KEY_DOWN evs)
                - int (presses GLUT_KEY_UP evs)))
           \<and> rotateY ?w' = 0 \<and> rotateZ ?w' = 0"
    if h: "list_all (\<lambda>ev. is_press GLUT_KEY_UP ev \<or> is_press GLUT_KEY_DOWN ev) evs"
  proof -
    have nh: "list_all (\<lambda>ev. \<not> is_press GLUT_KEY_HOME ev) evs"
      using no_home [OF h] by (simp add: glut_keys)
    have z: "presses GLUT_KEY_RIGHT evs = 0" "presses GLUT_KEY_LEFT evs = 0"
      "presses GLUT_KEY_PAGE_UP evs = 0" "presses GLUT_KEY_PAGE_DOWN evs = 0"
      using presses_other [OF h] by (simp_all add: glut_keys)
    show ?thesis
      using rotation_glutMainLoop [OF nh, of e ?w0] by (simp add: rotation_def z)
  qed
  have Z: "rotateZ ?w' = word_of_int (15 * (int (presses GLUT_KEY_PAGE_UP evs)
                - int (presses GLUT_KEY_PAGE_DOWN evs)))
           \<and> rotateX ?w' = 0 \<and> rotateY ?w' = 0"
    if h: "list_all (\<lambda>ev. is_press GLUT_KEY_PAGE_DOWN ev \<or> is_press GLUT_KEY_PAGE_UP ev) evs"
  proof -
    have nh: "list_all (\<lambda>ev. \<not> is_press GLUT_KEY_HOME ev) evs"
      using no_home [OF h] by (simp add: glut_keys)
    have z: "presses GLUT_KEY_RIGHT evs = 0" "presses GLUT_KEY_LEFT evs = 0"
      "presses GLUT_KEY_DOWN evs = 0" "presses GLUT_KEY_UP evs = 0"
      using presses_other [OF h] by (simp_all add: glut_keys)
    show ?thesis
      using rotation_glutMainLoop [OF nh, of e ?w0] by (simp add: rotation_def z)
  qed
  show ?thesis
  proof (intro conjI impI)
    assume h: "list_all (\<lambda>ev. is_press GLUT_KEY_LEFT ev \<or> is_press GLUT_KEY_RIGHT ev) evs"
    from Y [OF h] show "rotateY ?w' = word_of_int (15 * (int (presses GLUT_KEY_RIGHT evs)
                - int (presses GLUT_KEY_LEFT evs)))"
      and "rotateX ?w' = 0" and "rotateZ ?w' = 0"
      by simp_all
    assume "- (2 ^ 31) \<le> 15 * (int (presses GLUT_KEY_RIGHT evs) - int (presses GLUT_KEY_LEFT evs))
           \<and> 15 * (int (presses GLUT_KEY_RIGHT evs) - int (presses GLUT_KEY_LEFT evs)) < 2 ^ 31"
    with Y [OF h] show "sint (rotateY ?w')
        = 15 * (int (presses GLUT_KEY_RIGHT evs) - int (presses GLUT_KEY_LEFT evs))"
      using sint_word_of_int_exact by blast
  next
    assume h: "list_all (\<lambda>ev. is_press GLUT_KEY_UP ev \<or> is_press GLUT_KEY_DOWN ev) evs"
    from X [OF h] show "rotateX ?w' = word_of_int (15 * (int (presses GLUT_KEY_DOWN evs)
                - int (presses GLUT_KEY_UP evs)))"
      and "rotateY ?w' = 0" and "rotateZ ?w' = 0"
      by simp_all
    assume "- (2 ^ 31) \<le> 15 * (int (presses GLUT_KEY_DOWN evs) - int (presses GLUT_KEY_UP evs))
           \<and> 15 * (int (presses GLUT_KEY_DOWN evs) - int (presses GLUT_KEY_UP evs)) < 2 ^ 31"
    with X [OF h] show "sint (rotateX ?w')
        = 15 * (int (presses GLUT_KEY_DOWN evs) - int (presses GLUT_KEY_UP evs))"
      using sint_word_of_int_exact by blast
  next
    assume h: "list_all (\<lambda>ev. is_press GLUT_KEY_PAGE_DOWN ev \<or> is_press GLUT_KEY_PAGE_UP ev) evs"
    from Z [OF h] show "rotateZ ?w' = word_of_int (15 * (int (presses GLUT_KEY_PAGE_UP evs)
                - int (presses GLUT_KEY_PAGE_DOWN evs)))"
      and "rotateX ?w' = 0" and "rotateY ?w' = 0"
      by simp_all
    assume "- (2 ^ 31) \<le> 15 * (int (presses GLUT_KEY_PAGE_UP evs) - int (presses GLUT_KEY_PAGE_DOWN evs))
           \<and> 15 * (int (presses GLUT_KEY_PAGE_UP evs) - int (presses GLUT_KEY_PAGE_DOWN evs)) < 2 ^ 31"
    with Z [OF h] show "sint (rotateZ ?w')
        = 15 * (int (presses GLUT_KEY_PAGE_UP evs) - int (presses GLUT_KEY_PAGE_DOWN evs))"
      using sint_word_of_int_exact by blast
  qed
qed

theorem key_presses_accumulate_witness:
  "list_all (\<lambda>ev. is_press GLUT_KEY_LEFT ev \<or> is_press GLUT_KEY_RIGHT ev)
     [SpecialKey GLUT_KEY_RIGHT 0 0, SpecialKey GLUT_KEY_LEFT 5 5,
      SpecialKey GLUT_KEY_RIGHT 0 0, SpecialKey GLUT_KEY_RIGHT 9 1]
   \<and> angles (glutMainLoop env_ok
        [SpecialKey GLUT_KEY_RIGHT 0 0, SpecialKey GLUT_KEY_LEFT 5 5,
         SpecialKey GLUT_KEY_RIGHT 0 0, SpecialKey GLUT_KEY_RIGHT 9 1] start) = (0, 30, 0)
   \<and> list_all (\<lambda>ev. is_press GLUT_KEY_UP ev \<or> is_press GLUT_KEY_DOWN ev)
     [SpecialKey GLUT_KEY_UP 0 0, SpecialKey GLUT_KEY_DOWN 0 0, SpecialKey GLUT_KEY_UP 0 0]
   \<and> angles (glutMainLoop env_ok
        [SpecialKey GLUT_KEY_UP 0 0, SpecialKey GLUT_KEY_DOWN 0 0, SpecialKey GLUT_KEY_UP 0 0]
        start) = (- 15, 0, 0)
   \<and> list_all (\<lambda>ev. is_press GLUT_KEY_PAGE_DOWN ev \<or> is_press GLUT_KEY_PAGE_UP ev)
     [SpecialKey GLUT_KEY_PAGE_UP 0 0]
   \<and> angles (glutMainLoop env_ok [SpecialKey GLUT_KEY_PAGE_UP 0 0] start) = (0, 0, 15)"
proof -
  let ?ys = "[SpecialKey GLUT_KEY_RIGHT 0 0, SpecialKey GLUT_KEY_LEFT 5 5,
      SpecialKey GLUT_KEY_RIGHT 0 0, SpecialKey GLUT_KEY_RIGHT 9 1]"
  let ?xs = "[SpecialKey GLUT_KEY_UP 0 0, SpecialKey GLUT_KEY_DOWN 0 0,
      SpecialKey GLUT_KEY_UP 0 0]"
  let ?zs = "[SpecialKey GLUT_KEY_PAGE_UP 0 0]"
  have s0: "start\<lparr>rotateX := 0, rotateY := 0, rotateZ := 0\<rparr> = start"
    by (simp add: start_def)
  have hy: "list_all (\<lambda>ev. is_press GLUT_KEY_LEFT ev \<or> is_press GLUT_KEY_RIGHT ev) ?ys"
    and hx: "list_all (\<lambda>ev. is_press GLUT_KEY_UP ev \<or> is_press GLUT_KEY_DOWN ev) ?xs"
    and hz: "list_all (\<lambda>ev. is_press GLUT_KEY_PAGE_DOWN ev \<or> is_press GLUT_KEY_PAGE_UP ev) ?zs"
    by simp_all
  have y: "angles (glutMainLoop env_ok ?ys start) = (0, 30, 0)"
    using key_presses_accumulate [of ?ys env_ok start] hy
    unfolding s0 by (simp add: angles_def presses_def glut_keys)
  have x: "angles (glutMainLoop env_ok ?xs start) = (- 15, 0, 0)"
    using key_presses_accumulate [of ?xs env_ok start] hx
    unfolding s0 by (simp add: angles_def presses_def glut_keys)
  have z: "angles (glutMainLoop env_ok ?zs start) = (0, 0, 15)"
    using key_presses_accumulate [of ?zs env_ok start] hz
    unfolding s0 by (simp add: angles_def presses_def glut_keys)
  from hy hx hz y x z show ?thesis by blast
qed

text \<open>
  The claim as stated fails: after 143165577 presses of Right from angles (0, 0, 0) the
  claimed value 15 * 143165577 = 2147483655 does not fit a 32-bit \<^verbatim>\<open>int\<close>, and the Y
  angle read by the program is - 2147483641.
\<close>

theorem key_presses_overflow:
  "list_all (\<lambda>ev. is_press GLUT_KEY_LEFT ev \<or> is_press GLUT_KEY_RIGHT ev)
     (replicate 143165577 (SpecialKey GLUT_KEY_RIGHT 0 0))
   \<and> 15 * (int (presses GLUT_KEY_RIGHT (replicate 143165577 (SpecialKey GLUT_KEY_RIGHT 0 0)))
           - int (presses GLUT_KEY_LEFT (replicate 143165577 (SpecialKey GLUT_KEY_RIGHT 0 0))))
       = 2147483655
   \<and> sint (rotateY (glutMainLoop env_ok
        (replicate 143165577 (SpecialKey GLUT_KEY_RIGHT 0 0)) start)) = - 2147483641
   \<and> sint (rotateY (glutMainLoop env_ok
        (replicate 143165577 (SpecialKey GLUT_KEY_RIGHT 0 0)) start))
       \<noteq> 15 * (int (presses GLUT_KEY_RIGHT (replicate 143165577 (SpecialKey GLUT_KEY_RIGHT 0 0)))
           - int (presses GLUT_KEY_LEFT (replicate 143165577 (SpecialKey GLUT_KEY_RIGHT 0 0))))"
proof -
  let ?evs = "replicate 143165577 (SpecialKey GLUT_KEY_RIGHT 0 0)"
  have h: "list_all (\<lambda>ev. is_press GLUT_KEY_LEFT ev \<or> is_press GLUT_KEY_RIGHT ev) ?evs"
    by (rule list_all_replicate) simp
  have n: "15 * (int (presses GLUT_KEY_RIGHT ?evs) - int (presses GLUT_KEY_LEFT ?evs))
       = 2147483655"
    by (simp add: presses_replicate glut_keys)
  have "list_all (\<lambda>ev. \<not> is_press GLUT_KEY_HOME ev) ?evs"
    by (rule list_all_replicate) (simp add: glut_keys)
  from rotation_glutMainLoop [OF this, of env_ok start]
  have "rotateY (glutMainLoop env_ok ?evs start) = 15 * of_nat 143165577"
    by (simp add: rotation_def presses_replicate glut_keys start_def)
  then have v: "sint (rotateY (glutMainLoop env_ok ?evs start)) = - 2147483641"
    by simp
  have "sint (rotateY (glutMainLoop env_ok ?evs start))
      \<noteq> 15 * (int (presses GLUT_KEY_RIGHT ?evs) - int (presses GLUT_KEY_LEFT ?evs))"
    unfolding v n by simp
  with h n v show ?thesis by blast
qed

subsection \<open>Drawing\<close>

text \<open>
  Claim C3. On a redraw the model transform uploaded to the \<^verbatim>\<open>model\<close> uniform should be
  the three rotations together with the 0.5 scale. In the code the matrix read back by
  \<^verbatim>\<open>glGetFloatv\<close> and uploaded holds the three rotations only: \<^verbatim>\<open>glScalef\<close> is called
  after the upload, so the scale reaches the legacy modelview matrix and never the
  uniform. The theorem gives the calls of \<^verbatim>\<open>draw\<close> in order, the uniform store after it
  and the legacy matrix after it; the angles appear as the \<^verbatim>\<open>GLfloat\<close> values
  \<^verbatim>\<open>glRotatef\<close> receives.
\<close>

theorem draw_uploads_rotations_only:
  "calls (draw e w) = calls w @
     [glUseProgram (shader_program w), glMatrixMode_MODELVIEW, glLoadIdentity,
      glRotatef (GLfloat_of_int (sint (rotateX w))) 1 0 0,
      glRotatef (GLfloat_of_int (sint (rotateY w))) 0 1 0,
      glRotatef (GLfloat_of_int (sint (rotateZ w))) 0 0 1,
      glUniformMatrix4fv (model_location e)
        [Rotatef (GLfloat_of_int (sint (rotateX w))) 1 0 0,
         Rotatef (GLfloat_of_int (sint (rotateY w))) 0 1 0,
         Rotatef (GLfloat_of_int (sint (rotateZ w))) 0 0 1],
      glBindVertexArray (VAO w), glScalef (1/2) (1/2) (1/2), glDrawArrays 0 36]
   \<and> uniforms (draw e w) =
       (if model_location e = - 1 then uniforms w
        else (uniforms w)((shader_program w, model_location e) \<mapsto>
          [Rotatef (GLfloat_of_int (sint (rotateX w))) 1 0 0,
           Rotatef (GLfloat_of_int (sint (rotateY w))) 0 1 0,
           Rotatef (GLfloat_of_int (sint (rotateZ w))) 0 0 1]))
   \<and> modelview (draw e w) =
       [Rotatef (GLfloat_of_int (sint (rotateX w))) 1 0 0,
        Rotatef (GLfloat_of_int (sint (rotateY w))) 0 1 0,
        Rotatef (GLfloat_of_int (sint (rotateZ w))) 0 0 1, Scalef (1/2) (1/2) (1/2)]
   \<and> uniforms (draw env_ok start) (0, 0) =
       Some [Rotatef 0 1 0 0, Rotatef 0 0 1 0, Rotatef 0 0 0 1]"
proof -
  have "uniforms (draw env_ok start) (0, 0) =
       Some [Rotatef 0 1 0 0, Rotatef 0 0 1 0, Rotatef 0 0 0 1]"
    by (simp add: draw_uniforms) (simp add: env_ok_def start_def GLfloat_of_int_exact)
  then show ?thesis
    by (simp only: draw_calls draw_uniforms draw_modelview simp_thms)
qed

subsection \<open>Start-up\<close>

lemma read_shader_source_cases:
  obtains (failed) msg where
      "source_of e p = None" "\<And>w. read_shader_source e p w = (None, printf msg w)"
  | (loaded) buf where
      "source_of e p = Some buf" "\<And>w. read_shader_source e p w = (Some buf, w)"
proof (cases "files e p")
  case None
  then have "source_of e p = None"
    and "\<And>w. read_shader_source e p w = (None, printf (''Failed to open file: '' @ p @ nl) w)"
    by (simp_all add: source_of_def read_shader_source_def Let_def)
  then show thesis by (rule failed)
next
  case (Some bytes)
  show thesis
  proof (cases "malloc_ok e (length bytes + 1)")
    case False
    with Some have "source_of e p = None"
      and "\<And>w. read_shader_source e p w =
             (None, printf (''Failed to allocate memory for file content'' @ nl) w)"
      by (simp_all add: source_of_def read_shader_source_def Let_def)
    then show thesis by (rule failed)
  next
    case True
    show thesis
    proof (cases "min (length bytes) (fread_avail e p) < length bytes")
      case short: True
      with Some \<open>malloc_ok e (length bytes + 1)\<close> have "source_of e p = None"
        and "\<And>w. read_shader_source e p w =
               (None, printf (''Failed to read file content'' @ nl) w)"
        by (simp_all add: source_of_def read_shader_source_def Let_def)
      then show thesis by (rule failed)
    next
      case full: False
      with Some \<open>malloc_ok e (length bytes + 1)\<close>
      have "source_of e p = Some (take (min (length bytes) (fread_avail e p)) bytes @ [0])"
        and "\<And>w. read_shader_source e p w =
               (Some (take (min (length bytes) (fread_avail e p)) bytes @ [0]), w)"
        by (simp_all add: source_of_def read_shader_source_def Let_def)
      then show thesis by (rule loaded)
    qed
  qed
qed

lemma compile_shader_cases:
  obtains (failed) msg where
      "\<not> compile_status e t (c_string src)"
      "\<And>w. compile_shader e t src w = (0, printf msg (submitted e t src w))"
  | (compiled)
      "compile_status e t (c_string src)"
      "\<And>w. compile_shader e t src w = (shader_handle e t, submitted e t src w)"
proof (cases "compile_status e t (c_string src)")
  case False
  then have "\<And>w. compile_shader e t src w =
      (0, printf (''ERROR::SHADER::COMPILATION_FAILED'' @ nl
                    @ shader_info_log e t (c_string src) @ nl) (submitted e t src w))"
    by (simp only: compile_shader_def submitted_def Let_def if_True simp_thms)
  with False show thesis by (rule failed)
next
  case True
  then have "\<And>w. compile_shader e t src w = (shader_handle e t, submitted e t src w)"
    by (simp only: compile_shader_def submitted_def Let_def if_False simp_thms)
  with True show thesis by (rule compiled)
qed

lemma link_shaders_cases:
  obtains (failed) msg where
      "\<not> link_status e"
      "\<And>w. link_shaders e v f w = Exits 1 (printf msg (attached e v f w))"
  | (linked)
      "link_status e"
      "\<And>w. link_shaders e v f w =
         Returns () (gl (glDeleteShader f) (gl (glDeleteShader v) (attached e v f w)))"
proof (cases "link_status e")
  case False
  have sp: "shader_program (w\<lparr>shader_program := p\<rparr>) = p" for w p
    by simp
  from False have "\<And>w. link_shaders e v f w =
      Exits 1 (printf (''ERROR::SHADER::PROGRAM::LINKING_FAILED'' @ nl
                         @ program_info_log e @ nl) (attached e v f w))"
    by (simp only: link_shaders_def attached_def Let_def gl_fields sp if_True simp_thms)
  with False show thesis by (rule failed)
next
  case True
  have sp: "shader_program (w\<lparr>shader_program := p\<rparr>) = p" for w p
    by simp
  from True have "\<And>w. link_shaders e v f w =
      Returns () (gl (glDeleteShader f) (gl (glDeleteShader v) (attached e v f w)))"
    by (simp only: link_shaders_def attached_def Let_def gl_fields sp if_False simp_thms)
  with True show thesis by (rule linked)
qed

text \<open>
  Every way \<^verbatim>\<open>init_shaders\<close> can end, in source order: the state it ends in is the state
  it was called in, extended by the calls made and the message printed up to that point.
\<close>

lemma init_shaders_cases:
  obtains
    (vertex_unreadable) msg where
      "source_of e ''shaders/vertex.glsl'' = None"
      "\<And>w. init_shaders e w = Exits 1 (printf msg w)"
  | (vertex_rejected) vs msg where
      "source_of e ''shaders/vertex.glsl'' = Some vs"
      "\<not> compile_status e GL_VERTEX_SHADER (c_string vs)"
      "\<And>w. init_shaders e w = Exits 1 (printf msg (submitted e GL_VERTEX_SHADER vs w))"
  | (vertex_null) vs where
      "source_of e ''shaders/vertex.glsl'' = Some vs"
      "compile_status e GL_VERTEX_SHADER (c_string vs)"
      "shader_handle e GL_VERTEX_SHADER = 0"
      "\<And>w. init_shaders e w = Exits 1 (submitted e GL_VERTEX_SHADER vs w)"
  | (fragment_unreadable) vs msg where
      "source_of e ''shaders/vertex.glsl'' = Some vs"
      "compile_status e GL_VERTEX_SHADER (c_string vs)"
      "shader_handle e GL_VERTEX_SHADER \<noteq> 0"
      "source_of e ''shaders/fragment.glsl'' = None"
      "\<And>w. init_shaders e w = Exits 1 (printf msg (submitted e GL_VERTEX_SHADER vs w))"
  | (fragment_rejected) vs fs msg where
      "source_of e ''shaders/vertex.glsl'' = Some vs"
      "compile_status e GL_VERTEX_SHADER (c_string vs)"
      "shader_handle e GL_VERTEX_SHADER \<noteq> 0"
      "source_of e ''shaders/fragment.glsl'' = Some fs"
      "\<not> compile_status e GL_FRAGMENT_SHADER (c_string fs)"
      "\<And>w. init_shaders e w =
         Exits 1 (printf msg (submitted e GL_FRAGMENT_SHADER fs
                                (submitted e GL_VERTEX_SHADER vs w)))"
  | (fragment_null) vs fs where
      "source_of e ''shaders/vertex.glsl'' = Some vs"
      "compile_status e GL_VERTEX_SHADER (c_string vs)"
      "shader_handle e GL_VERTEX_SHADER \<noteq> 0"
      "source_of e ''shaders/fragment.glsl'' = Some fs"
      "compile_status e GL_FRAGMENT_SHADER (c_string fs)"
      "shader_handle e GL_FRAGMENT_SHADER = 0"
      "\<And>w. init_shaders e w =
         Exits 1 (submitted e GL_FRAGMENT_SHADER fs (submitted e GL_VERTEX_SHADER vs w))"
  | (link_failed) vs fs msg where
      "source_of e ''shaders/vertex.glsl'' = Some vs"
      "compile_status e GL_VERTEX_SHADER (c_string vs)"
      "shader_handle e GL_VERTEX_SHADER \<noteq> 0"
      "source_of e ''shaders/fragment.glsl'' = Some fs"
      "compile_status e GL_FRAGMENT_SHADER (c_string fs)"
      "shader_handle e GL_FRAGMENT_SHADER \<noteq> 0"
      "\<not> link_status e"
      "\<And>w. init_shaders e w =
         Exits 1 (printf msg
           (attached e (shader_handle e GL_VERTEX_SHADER) (shader_handle e GL_FRAGMENT_SHADER)
             (submitted e GL_FRAGMENT_SHADER fs (submitted e GL_VERTEX_SHADER vs w))))"
  | (program_linked) vs fs where
      "source_of e ''shaders/vertex.glsl'' = Some vs"
      "compile_status e GL_VERTEX_SHADER (c_string vs)"
      "shader_handle e GL_VERTEX_SHADER \<noteq> 0"
      "source_of e ''shaders/fragment.glsl'' = Some fs"
      "compile_status e GL_FRAGMENT_SHADER (c_string fs)"
      "shader_handle e GL_FRAGMENT_SHADER \<noteq> 0"
      "link_status e"
      "\<And>w. init_shaders e w =
         Returns ()
           (gl (glDeleteShader (shader_handle e GL_FRAGMENT_SHADER))
             (gl (glDeleteShader (shader_handle e GL_VERTEX_SHADER))
               (attached e (shader_handle e GL_VERTEX_SHADER)
                  (shader_handle e GL_FRAGMENT_SHADER)
                  (submitted e GL_FRAGMENT_SHADER fs
                    (submitted e GL_VERTEX_SHADER vs w)))))"
proof (cases rule: read_shader_source_cases [of e "''shaders/vertex.glsl''"])
  case (failed msg)
  show thesis
    by (rule vertex_unreadable) (insert failed, simp_all add: init_shaders_def)
next
  case rv: (loaded vs)
  show thesis
  proof (cases rule: compile_shader_cases [of e GL_VERTEX_SHADER vs])
    case (failed msg)
    show thesis
      by (rule vertex_rejected) (insert rv failed, simp_all add: init_shaders_def)
  next
    case cv: compiled
    show thesis
    proof (cases "shader_handle e GL_VERTEX_SHADER = 0")
      case True
      show thesis
        by (rule vertex_null) (insert rv cv True, simp_all add: init_shaders_def)
    next
      case hv: False
      show thesis
      proof (cases rule: read_shader_source_cases [of e "''shaders/fragment.glsl''"])
        case (failed msg)
        show thesis
          by (rule fragment_unreadable) (insert rv cv hv failed, simp_all add: init_shaders_def)
      next
        case rf: (loaded fs)
        show thesis
        proof (cases rule: compile_shader_cases [of e GL_FRAGMENT_SHADER fs])
          case (failed msg)
          show thesis
            by (rule fragment_rejected) (insert rv cv hv rf failed, simp_all add: init_shaders_def)
        next
          case cf: compiled
          show thesis
          proof (cases "shader_handle e GL_FRAGMENT_SHADER = 0")
            case True
            show thesis
              by (rule fragment_null) (insert rv cv hv rf cf True, simp_all add: init_shaders_def)
          next
            case hf: False
            show thesis
            proof (cases rule: link_shaders_cases
                [of e "shader_handle e GL_VERTEX_SHADER" "shader_handle e GL_FRAGMENT_SHADER"])
              case (failed msg)
              show thesis
                by (rule link_failed) (insert rv cv hv rf cf hf failed, simp_all add: init_shaders_def)
            next
              case linked
              show thesis
                by (rule program_linked) (insert rv cv hv rf cf hf linked, simp_all add: init_shaders_def)
            qed
          qed
        qed
      qed
    qed
  qed
qed

lemma init_shaders_env_ok:
  "init_shaders env_ok w =
     Returns ()
       (gl (glDeleteShader 2) (gl (glDeleteShader 1)
         (attached env_ok 1 2
           (submitted env_ok GL_FRAGMENT_SHADER [118, 111, 105, 100, 0]
             (submitted env_ok GL_VERTEX_SHADER [118, 111, 105, 100, 10, 0] w)))))"
  by (simp add: init_shaders_def read_shader_source_def compile_shader_def link_shaders_def
      Let_def env_ok_def submitted_def attached_def)

subsection \<open>The shader source loader\<close>

text \<open>
  Claim C2, as amended. For every file of N bytes that can be opened, provided the
  allocation of N + 1 bytes succeeds and the read delivers all N bytes,
  \<^verbatim>\<open>read_shader_source\<close> returns a buffer of exactly N + 1 bytes whose first N bytes are
  the file content and whose last byte is the null terminator, and prints nothing. For a
  path that cannot be opened it prints the open failure for that path and returns no
  buffer.
\<close>

theorem read_shader_source_roundtrip:
  "(files e p = Some bytes \<and> malloc_ok e (length bytes + 1) \<and> length bytes \<le> fread_avail e p
      \<longrightarrow> (\<exists>buf. read_shader_source e p w = (Some buf, w)
                 \<and> length buf = length bytes + 1
                 \<and> take (length bytes) buf = bytes
                 \<and> buf ! length bytes = 0))
   \<and> (files e p = None
      \<longrightarrow> read_shader_source e p w = (None, printf (''Failed to open file: '' @ p @ nl) w))"
proof (intro conjI impI)
  assume h: "files e p = Some bytes \<and> malloc_ok e (length bytes + 1)
      \<and> length bytes \<le> fread_avail e p"
  then have "read_shader_source e p w = (Some (bytes @ [0]), w)"
    by (simp add: read_shader_source_def Let_def min_def)
  then show "\<exists>buf. read_shader_source e p w = (Some buf, w)
                 \<and> length buf = length bytes + 1
                 \<and> take (length bytes) buf = bytes
                 \<and> buf ! length bytes = 0"
    by simp
next
  assume "files e p = None"
  then show "read_shader_source e p w = (None, printf (''Failed to open file: '' @ p @ nl) w)"
    by (simp add: read_shader_source_def)
qed

theorem read_shader_source_roundtrip_witness:
  "files env_ok ''shaders/fragment.glsl'' = Some [118, 111, 105, 100]
   \<and> (\<exists>buf. read_shader_source env_ok ''shaders/fragment.glsl'' start = (Some buf, start)
          \<and> length buf = length [118, 111, 105, 100 :: byte] + 1
          \<and> take (length [118, 111, 105, 100 :: byte]) buf = [118, 111, 105, 100]
          \<and> buf ! length [118, 111, 105, 100 :: byte] = 0)
   \<and> files env_ok ''shaders/missing.glsl'' = None
   \<and> read_shader_source env_ok ''shaders/missing.glsl'' start
       = (None, printf (''Failed to open file: '' @ ''shaders/missing.glsl'' @ nl) start)"
proof -
  let ?b = "[118, 111, 105, 100] :: byte list"
  have f: "files env_ok ''shaders/fragment.glsl'' = Some ?b"
    and m: "files env_ok ''shaders/missing.glsl'' = None"
    by (simp_all add: env_ok_def)
  have h: "files env_ok ''shaders/fragment.glsl'' = Some ?b
      \<and> malloc_ok env_ok (length ?b + 1)
      \<and> length ?b \<le> fread_avail env_ok ''shaders/fragment.glsl''"
    by (simp add: env_ok_def)
  from read_shader_source_roundtrip [of env_ok "''shaders/fragment.glsl''" ?b start] h
  have loaded: "\<exists>buf. read_shader_source env_ok ''shaders/fragment.glsl'' start = (Some buf, start)
          \<and> length buf = length ?b + 1 \<and> take (length ?b) buf = ?b \<and> buf ! length ?b = 0"
    by blast
  from read_shader_source_roundtrip [of env_ok "''shaders/missing.glsl''" "[]" start] m
  have missing: "read_shader_source env_ok ''shaders/missing.glsl'' start
      = (None, printf (''Failed to open file: '' @ ''shaders/missing.glsl'' @ nl) start)"
    by blast
  from f loaded m missing show ?thesis by blast
qed

text \<open>
  The claim as stated fails: a file that opens gives no buffer when the allocation fails,
  and none when the read delivers fewer bytes than the file holds.
\<close>

theorem read_shader_source_opened_no_buffer:
  "files (env_ok\<lparr>malloc_ok := \<lambda>n. False\<rparr>) ''shaders/vertex.glsl''
       = Some [118, 111, 105, 100, 10]
   \<and> read_shader_source (env_ok\<lparr>malloc_ok := \<lambda>n. False\<rparr>) ''shaders/vertex.glsl'' start
       = (None, printf (''Failed to allocate memory for file content'' @ nl) start)
   \<and> files (env_ok\<lparr>fread_avail := \<lambda>p. 3\<rparr>) ''shaders/vertex.glsl''
       = Some [118, 111, 105, 100, 10]
   \<and> read_shader_source (env_ok\<lparr>fread_avail := \<lambda>p. 3\<rparr>) ''shaders/vertex.glsl'' start
       = (None, printf (''Failed to read file content'' @ nl) start)"
  by (simp add: read_shader_source_def env_ok_def Let_def)

subsection \<open>Release of the stage objects\<close>

lemma link_shaders_exit:
  "exit_code (link_shaders e v f w) = (if link_status e then None else Some 1)"
  by (cases rule: link_shaders_cases [of e v f]) simp_all

lemma link_shaders_calls:
  "calls (final (link_shaders e v f w)) = calls w @
     [glCreateProgram, glAttachShader (program_handle e) v,
      glAttachShader (program_handle e) f, glLinkProgram (program_handle e)]
     @ (if link_status e then [glDeleteShader v, glDeleteShader f] else [])"
  by (cases rule: link_shaders_cases [of e v f]) simp_all

lemma init_shaders_returns_calls:
  "exit_code (init_shaders e w) = None \<Longrightarrow>
   \<exists>pre. calls (final (init_shaders e w)) = pre @
     [glLinkProgram (program_handle e), glDeleteShader (shader_handle e GL_VERTEX_SHADER),
      glDeleteShader (shader_handle e GL_FRAGMENT_SHADER)]"
  by (cases rule: init_shaders_cases [of e]) simp_all

lemma init_shaders_exits_calls:
  "exit_code (init_shaders e w) \<noteq> None \<Longrightarrow>
   filter is_glDeleteShader (calls (final (init_shaders e w)))
     = filter is_glDeleteShader (calls w)"
  by (cases rule: init_shaders_cases [of e]) simp_all

text \<open>
  Claim C7, as amended. After a successful link both stage objects are deleted, right
  after the link: the vertex stage, then the fragment stage. When the link fails the
  process exits with code 1 and neither stage object is deleted; no exit path of
  \<^verbatim>\<open>init_shaders\<close> deletes a stage object.
\<close>

theorem stage_objects_release:
  "exit_code (link_shaders e v f w) = (if link_status e then None else Some 1)
   \<and> calls (final (link_shaders e v f w)) = calls w @
       [glCreateProgram, glAttachShader (program_handle e) v,
        glAttachShader (program_handle e) f, glLinkProgram (program_handle e)]
       @ (if link_status e then [glDeleteShader v, glDeleteShader f] else [])
   \<and> (exit_code (init_shaders e w) = None \<longrightarrow>
        (\<exists>pre. calls (final (init_shaders e w)) = pre @
           [glLinkProgram (program_handle e),
            glDeleteShader (shader_handle e GL_VERTEX_SHADER),
            glDeleteShader (shader_handle e GL_FRAGMENT_SHADER)]))
   \<and> (exit_code (init_shaders e w) \<noteq> None \<longrightarrow>
        filter is_glDeleteShader (calls (final (init_shaders e w)))
          = filter is_glDeleteShader (calls w))"
  using link_shaders_exit [of e v f w] link_shaders_calls [of e v f w]
    init_shaders_returns_calls [of e w] init_shaders_exits_calls [of e w]
  by blast

lemma init_shaders_link_fails:
  "init_shaders (env_ok\<lparr>link_status := False\<rparr>) w =
     Exits 1
       (printf (''ERROR::SHADER::PROGRAM::LINKING_FAILED'' @ nl @ [] @ nl)
         (attached env_ok 1 2
           (submitted env_ok GL_FRAGMENT_SHADER [118, 111, 105, 100, 0]
             (submitted env_ok GL_VERTEX_SHADER [118, 111, 105, 100, 10, 0] w))))"
  by (simp add: init_shaders_def read_shader_source_def compile_shader_def link_shaders_def
      Let_def env_ok_def submitted_def attached_def)

theorem stage_objects_release_witness:
  "exit_code (init_shaders env_ok start) = None
   \<and> (\<exists>pre. calls (final (init_shaders env_ok start)) = pre @
         [glLinkProgram 3, glDeleteShader 1, glDeleteShader 2])
   \<and> exit_code (init_shaders (env_ok\<lparr>link_status := False\<rparr>) start) \<noteq> None
   \<and> filter is_glDeleteShader
        (calls (final (init_shaders (env_ok\<lparr>link_status := False\<rparr>) start))) = []"
proof -
  have a: "exit_code (init_shaders env_ok start) = None"
    by (simp add: init_shaders_env_ok)
  have b: "exit_code (init_shaders (env_ok\<lparr>link_status := False\<rparr>) start) \<noteq> None"
    by (simp add: init_shaders_link_fails)
  have h: "program_handle env_ok = 3" "shader_handle env_ok GL_VERTEX_SHADER = 1"
    "shader_handle env_ok GL_FRAGMENT_SHADER = 2" "calls start = []"
    by (simp_all add: env_ok_def start_def)
  from stage_objects_release [of env_ok 1 2 start] a
  have c: "\<exists>pre. calls (final (init_shaders env_ok start)) = pre @
         [glLinkProgram 3, glDeleteShader 1, glDeleteShader 2]"
    unfolding h by blast
  from stage_objects_release [of "env_ok\<lparr>link_status := False\<rparr>" 1 2 start] b
  have d: "filter is_glDeleteShader
        (calls (final (init_shaders (env_ok\<lparr>link_status := False\<rparr>) start))) = []"
    unfolding h by simp
  from a b c d show ?thesis by blast
qed

text \<open>
  The claim as stated fails on the link-failure path: both sources load and compile, the
  link fails, the process exits with code 1, and the log of calls ends with
  \<^verbatim>\<open>glLinkProgram\<close>: neither stage object (handles 1 and 2) is deleted.
\<close>

theorem link_failure_keeps_stage_objects:
  "exit_code (init_shaders (env_ok\<lparr>link_status := False\<rparr>) start) = Some 1
   \<and> calls (final (init_shaders (env_ok\<lparr>link_status := False\<rparr>) start)) =
       [glCreateShader GL_VERTEX_SHADER, glShaderSource 1 [118, 111, 105, 100, 10],
        glCompileShader 1,
        glCreateShader GL_FRAGMENT_SHADER, glShaderSource 2 [118, 111, 105, 100],
        glCompileShader 2,
        glCreateProgram, glAttachShader 3 1, glAttachShader 3 2, glLinkProgram 3]
   \<and> glDeleteShader 1 \<notin> set (calls (final (init_shaders (env_ok\<lparr>link_status := False\<rparr>) start)))
   \<and> glDeleteShader 2 \<notin> set (calls (final (init_shaders (env_ok\<lparr>link_status := False\<rparr>) start)))"
  by (simp add: init_shaders_link_fails) (simp add: env_ok_def start_def c_string_def)

subsection \<open>Exit codes of start-up\<close>

lemma exit_code_init:
  "exit_code (init e w) = exit_code (init_shaders e (gl glEnable_DEPTH_TEST (gl glewInit w)))"
  by (cases "init_shaders e (gl glEnable_DEPTH_TEST (gl glewInit w))")
     (simp_all add: init_def Let_def)

lemma final_init:
  "final (init e w) =
     (if exit_code (init_shaders e (gl glEnable_DEPTH_TEST (gl glewInit w))) = None
      then init_buffers e (final (init_shaders e (gl glEnable_DEPTH_TEST (gl glewInit w))))
      else final (init_shaders e (gl glEnable_DEPTH_TEST (gl glewInit w))))"
  by (cases "init_shaders e (gl glEnable_DEPTH_TEST (gl glewInit w))")
     (simp_all add: init_def Let_def)

lemma exit_code_main:
  "exit_code (main e evs) =
     exit_code (init e (gl (glutCreateWindow ''OpenGL Cube with GLUT'')
       (gl (glutInitWindowSize 800 600) (gl glutInitDisplayMode (gl glutInit start)))))"
  by (cases "init e (gl (glutCreateWindow ''OpenGL Cube with GLUT'')
       (gl (glutInitWindowSize 800 600) (gl glutInitDisplayMode (gl glutInit start))))")
     (simp_all add: main_def Let_def)

lemma final_main:
  "final (main e evs) =
     (let r = init e (gl (glutCreateWindow ''OpenGL Cube with GLUT'')
        (gl (glutInitWindowSize 800 600) (gl glutInitDisplayMode (gl glutInit start))))
      in if exit_code r = None
         then glutMainLoop e evs (gl glutSpecialFunc (gl glutDisplayFunc (final r)))
         else final r)"
  by (cases "init e (gl (glutCreateWindow ''OpenGL Cube with GLUT'')
       (gl (glutInitWindowSize 800 600) (gl glutInitDisplayMode (gl glutInit start))))")
     (simp_all add: main_def Let_def)

text \<open>
  The loader agrees with the three load errors: it returns a buffer exactly when there is
  none of them, and the buffer then holds the bytes of the file followed by a null byte,
  so the text handed to the compiler is the text of the file.
\<close>

lemma source_of_load_failure:
  "source_of e p =
     (case load_failure e p of
        None \<Rightarrow> map_option (\<lambda>bytes. bytes @ [0]) (files e p)
      | Some err \<Rightarrow> None)"
  by (simp add: source_of_def read_shader_source_def load_failure_def Let_def min_def
      split: option.split)

lemma source_of_None: "source_of e p = None \<longleftrightarrow> cannot_load e p"
  by (simp add: source_of_load_failure cannot_load_def load_failure_def split: option.split)

lemma c_string_terminated: "c_string (bytes @ [0]) = takeWhile (\<lambda>b. b \<noteq> 0) bytes"
  by (simp add: c_string_def takeWhile_tail)

lemma source_of_Some:
  assumes "source_of e p = Some src"
  shows "\<not> cannot_load e p"
    and "fails_to_compile e t p \<longleftrightarrow> \<not> compile_status e t (c_string src)"
proof -
  from assms show "\<not> cannot_load e p"
    by (simp add: source_of_None [symmetric])
  from assms obtain bytes where "files e p = Some bytes" "src = bytes @ [0]"
    by (auto simp: source_of_load_failure split: option.splits)
  then show "fails_to_compile e t p \<longleftrightarrow> \<not> compile_status e t (c_string src)"
    by (simp add: fails_to_compile_def c_string_terminated)
qed

text \<open>
  The exit code of \<^verbatim>\<open>init_shaders\<close> on every path: besides the three kinds of failure,
  a handle 0 from \<^verbatim>\<open>glCreateShader\<close> ends the process too, through the tests at lines 69
  and 78.
\<close>

lemma init_shaders_exit_code:
  "exit_code (init_shaders e w) =
     (if startup_fails e \<or> shader_handle e GL_VERTEX_SHADER = 0
         \<or> shader_handle e GL_FRAGMENT_SHADER = 0
      then Some 1 else None)"
proof (cases rule: init_shaders_cases [of e])
  case (vertex_unreadable msg)
  then show ?thesis
    by (simp add: startup_fails_def source_of_None)
next
  case (vertex_rejected vs msg)
  then show ?thesis
    by (simp add: startup_fails_def source_of_Some [of e _ vs])
next
  case (vertex_null vs)
  then show ?thesis by simp
next
  case (fragment_unreadable vs msg)
  then show ?thesis
    by (simp add: startup_fails_def source_of_None)
next
  case (fragment_rejected vs fs msg)
  then show ?thesis
    by (simp add: startup_fails_def source_of_Some [of e _ fs])
next
  case (fragment_null vs fs)
  then show ?thesis by simp
next
  case (link_failed vs fs msg)
  then show ?thesis
    by (simp add: startup_fails_def)
next
  case (program_linked vs fs)
  then show ?thesis
    by (simp add: startup_fails_def source_of_Some [of e _ vs] source_of_Some [of e _ fs])
qed

text \<open>
  With non-zero handles every failure prints exactly one message before the exit, and a
  start-up without failure prints nothing.
\<close>

lemma init_shaders_console_failure:
  assumes "shader_handle e GL_VERTEX_SHADER \<noteq> 0" "shader_handle e GL_FRAGMENT_SHADER \<noteq> 0"
    and "startup_fails e"
  shows "\<exists>msg. console (final (init_shaders e w)) = console w @ [msg]"
proof (cases rule: init_shaders_cases [of e])
  case (program_linked vs fs)
  with assms(3) show ?thesis
    by (simp add: startup_fails_def source_of_Some [of e _ vs] source_of_Some [of e _ fs])
qed (insert assms(1,2), simp_all)

lemma init_shaders_console_success:
  assumes "\<not> startup_fails e"
  shows "console (final (init_shaders e w)) = console w"
proof (cases rule: init_shaders_cases [of e])
  case (vertex_unreadable msg)
  with assms show ?thesis
    by (simp add: startup_fails_def source_of_None)
next
  case (vertex_rejected vs msg)
  with assms show ?thesis
    by (simp add: startup_fails_def source_of_Some [of e _ vs])
next
  case (fragment_unreadable vs msg)
  with assms show ?thesis
    by (simp add: startup_fails_def source_of_None)
next
  case (fragment_rejected vs fs msg)
  with assms show ?thesis
    by (simp add: startup_fails_def source_of_Some [of e _ fs])
next
  case (link_failed vs fs msg)
  with assms show ?thesis
    by (simp add: startup_fails_def)
qed simp_all

lemma startup_exit_with_handles:
  assumes "shader_handle e GL_VERTEX_SHADER \<noteq> 0"
    and "shader_handle e GL_FRAGMENT_SHADER \<noteq> 0"
  shows "exit_code (init e w) = (if startup_fails e then Some 1 else None)"
    and "startup_fails e \<Longrightarrow> \<exists>msg. console (final (init e w)) = console w @ [msg]"
    and "exit_code (main e evs) = (if startup_fails e then Some 1 else None)"
    and "startup_fails e \<Longrightarrow> final (main e evs) = final (main e [])"
proof -
  have code: "exit_code (init_shaders e v) = (if startup_fails e then Some 1 else None)" for v
    using assms by (simp add: init_shaders_exit_code)
  show c1: "exit_code (init e v) = (if startup_fails e then Some 1 else None)" for v
    by (simp only: exit_code_init code)
  show "\<exists>msg. console (final (init e w)) = console w @ [msg]" if "startup_fails e"
    using that init_shaders_console_failure
      [OF assms that, of "gl glEnable_DEPTH_TEST (gl glewInit w)"]
    by (simp add: final_init code)
  show "exit_code (main e evs) = (if startup_fails e then Some 1 else None)"
    by (simp only: exit_code_main c1)
  show "final (main e evs) = final (main e [])" if "startup_fails e"
    using that by (simp add: final_main c1 Let_def)
qed

text \<open>
  Claim C8. Start-up should end the process with exit code 1 exactly when a shader source
  cannot be loaded, a stage fails to compile or the program fails to link, each time
  after a console message. The code exits with code 1 on one more path, and silently:
  when \<^verbatim>\<open>glCreateShader\<close> returns 0, \<^verbatim>\<open>compile_shader\<close> does not test the handle, reads
  \<^verbatim>\<open>success\<close> without it having been written, and with a non-zero value there returns the
  handle 0 without printing; \<^verbatim>\<open>init_shaders\<close> takes the 0 for a failed compilation and
  calls \<^verbatim>\<open>exit(1)\<close>. The theorem gives the exit code of start-up in every environment, and
  one run on that path: both files load, no stage is reported as failing, the link would
  succeed, yet the process exits with code 1, before linking, with an empty console.
\<close>

theorem startup_exit_null_handle:
  "exit_code (init e w) =
     (if startup_fails e \<or> shader_handle e GL_VERTEX_SHADER = 0
         \<or> shader_handle e GL_FRAGMENT_SHADER = 0
      then Some 1 else None)
   \<and> exit_code (main e evs) = exit_code (init e w)
   \<and> load_failure (env_ok\<lparr>shader_handle := \<lambda>t. 0\<rparr>) ''shaders/vertex.glsl'' = None
   \<and> load_failure (env_ok\<lparr>shader_handle := \<lambda>t. 0\<rparr>) ''shaders/fragment.glsl'' = None
   \<and> startup_fails (env_ok\<lparr>shader_handle := \<lambda>t. 0\<rparr>) = False
   \<and> exit_code (init (env_ok\<lparr>shader_handle := \<lambda>t. 0\<rparr>) start) = Some 1
   \<and> console (final (init (env_ok\<lparr>shader_handle := \<lambda>t. 0\<rparr>) start)) = []
   \<and> calls (final (init (env_ok\<lparr>shader_handle := \<lambda>t. 0\<rparr>) start)) =
       [glewInit, glEnable_DEPTH_TEST, glCreateShader GL_VERTEX_SHADER,
        glShaderSource 0 [118, 111, 105, 100, 10], glCompileShader 0]
   \<and> exit_code (main (env_ok\<lparr>shader_handle := \<lambda>t. 0\<rparr>) [Redisplay]) = Some 1
   \<and> console (final (main (env_ok\<lparr>shader_handle := \<lambda>t. 0\<rparr>) [Redisplay])) = []"
proof -
  let ?e = "env_ok\<lparr>shader_handle := \<lambda>t. 0\<rparr>"
  have code: "exit_code (init e v) =
     (if startup_fails e \<or> shader_handle e GL_VERTEX_SHADER = 0
         \<or> shader_handle e GL_FRAGMENT_SHADER = 0
      then Some 1 else None)" for e v
    by (simp only: exit_code_init init_shaders_exit_code)
  have main_code: "exit_code (main e evs) = exit_code (init e w)"
    by (simp only: exit_code_main code)
  have lv: "load_failure ?e ''shaders/vertex.glsl'' = None"
    and lf: "load_failure ?e ''shaders/fragment.glsl'' = None"
    by (simp_all add: load_failure_def env_ok_def)
  have ok: "startup_fails ?e = False"
    by (simp add: startup_fails_def cannot_load_def lv lf)
       (simp add: fails_to_compile_def env_ok_def)
  have run: "init_shaders ?e v =
      Exits 1 (submitted ?e GL_VERTEX_SHADER [118, 111, 105, 100, 10, 0] v)" for v
    by (simp add: init_shaders_def read_shader_source_def compile_shader_def Let_def
        env_ok_def submitted_def)
  have i: "init ?e v =
      Exits 1 (submitted ?e GL_VERTEX_SHADER [118, 111, 105, 100, 10, 0]
        (gl glEnable_DEPTH_TEST (gl glewInit v)))" for v
    by (simp add: init_def Let_def run)
  have ic: "exit_code (init ?e start) = Some 1"
    and io: "console (final (init ?e start)) = []"
    and il: "calls (final (init ?e start)) =
       [glewInit, glEnable_DEPTH_TEST, glCreateShader GL_VERTEX_SHADER,
        glShaderSource 0 [118, 111, 105, 100, 10], glCompileShader 0]"
    by (simp_all add: i start_def c_string_def)
  have mc: "exit_code (main ?e [Redisplay]) = Some 1"
    and mo: "console (final (main ?e [Redisplay])) = []"
    by (simp_all add: main_def Let_def i start_def)
  from code [of e w] main_code lv lf ok ic io il mc mo show ?thesis
    by (simp only: simp_thms)
qed

subsection \<open>The cube's geometry\<close>

lemma glBufferData_doSpecialKey:
  "filter is_glBufferData (calls (doSpecialKey key x y w)) = filter is_glBufferData (calls w)"
  by (simp add: doSpecialKey_calls)

lemma glBufferData_display:
  "filter is_glBufferData (calls (display e w)) = filter is_glBufferData (calls w)"
  by (simp add: display_calls)

lemma glutMainLoop_geometry:
  "buffer_store (glutMainLoop e evs w) = buffer_store w
   \<and> VBO (glutMainLoop e evs w) = VBO w
   \<and> filter is_glBufferData (calls (glutMainLoop e evs w)) = filter is_glBufferData (calls w)"
proof (induction evs arbitrary: w)
  case Nil
  show ?case by simp
next
  case (Cons ev evs)
  have "buffer_store (dispatch e ev w) = buffer_store w \<and> VBO (dispatch e ev w) = VBO w
    \<and> filter is_glBufferData (calls (dispatch e ev w)) = filter is_glBufferData (calls w)"
    by (cases ev) (simp_all add: glBufferData_doSpecialKey glBufferData_display)
  with Cons.IH [of "dispatch e ev w"] show ?case by simp
qed

lemma glBufferData_init_shaders:
  "filter is_glBufferData (calls (final (init_shaders e w))) = filter is_glBufferData (calls w)"
  by (cases rule: init_shaders_cases [of e]) simp_all

lemma init_geometry:
  assumes "exit_code (init e w) = None"
  shows "buffer_store (final (init e w)) (VBO (final (init e w))) = Some vertices"
    and "filter is_glBufferData (calls (final (init e w)))
           = filter is_glBufferData (calls w) @ [glBufferData vertices]"
  using assms glBufferData_init_shaders [of e "gl glEnable_DEPTH_TEST (gl glewInit w)"]
  by (simp_all add: exit_code_init final_init)

lemma main_geometry:
  assumes "exit_code (main e evs) = None"
  shows "buffer_store (final (main e evs)) (VBO (final (main e evs))) = Some vertices"
    and "filter is_glBufferData (calls (final (main e evs))) = [glBufferData vertices]"
proof -
  let ?w = "gl (glutCreateWindow ''OpenGL Cube with GLUT'')
       (gl (glutInitWindowSize 800 600) (gl glutInitDisplayMode (gl glutInit start)))"
  let ?w1 = "gl glutSpecialFunc (gl glutDisplayFunc (final (init e ?w)))"
  have ok: "exit_code (init e ?w) = None"
    using assms by (simp only: exit_code_main)
  then have fm: "final (main e evs) = glutMainLoop e evs ?w1"
    by (simp add: final_main Let_def)
  have "calls ?w = [glutInit, glutInitDisplayMode, glutInitWindowSize 800 600,
      glutCreateWindow ''OpenGL Cube with GLUT'']"
    by (simp add: start_def)
  then have none: "filter is_glBufferData (calls ?w) = []"
    by simp
  from init_geometry [OF ok] none
  have "buffer_store ?w1 (VBO ?w1) = Some vertices"
    and "filter is_glBufferData (calls ?w1) = [glBufferData vertices]"
    by simp_all
  with glutMainLoop_geometry [of e evs ?w1] fm
  show "buffer_store (final (main e evs)) (VBO (final (main e evs))) = Some vertices"
    and "filter is_glBufferData (calls (final (main e evs))) = [glBufferData vertices]"
    by simp_all
qed

lemma vertices_shape:
  "length vertices = 108" "list_all (\<lambda>c. c = - 1/2 \<or> c = 1/2) vertices"
  by (simp_all add: vertices_def)

text \<open>
  Claim C6. The vertex array of \<^verbatim>\<open>init_buffers\<close> holds exactly 108 floats, 36 vertices of
  3 components, each coordinate - 0.5 or 0.5. When start-up succeeds the array is
  uploaded once, into the buffer \<^verbatim>\<open>VBO\<close> names. No event of the main loop, key press or
  repaint, changes the buffer store, the buffer \<^verbatim>\<open>VBO\<close> names or the number of uploads: in
  every run of \<^verbatim>\<open>main\<close> that gets past start-up the buffer holds that array at the end and
  the upload at start-up is the only one.
\<close>

theorem cube_geometry_fixed:
  "length vertices = 108 \<and> length vertices = 36 * 3
   \<and> list_all (\<lambda>c. c = - 1/2 \<or> c = 1/2) vertices
   \<and> (exit_code (init e w) = None \<longrightarrow>
        buffer_store (final (init e w)) (VBO (final (init e w))) = Some vertices
        \<and> filter is_glBufferData (calls (final (init e w)))
            = filter is_glBufferData (calls w) @ [glBufferData vertices])
   \<and> buffer_store (glutMainLoop e evs w) = buffer_store w
   \<and> VBO (glutMainLoop e evs w) = VBO w
   \<and> filter is_glBufferData (calls (glutMainLoop e evs w)) = filter is_glBufferData (calls w)
   \<and> (exit_code (main e evs) = None \<longrightarrow>
        buffer_store (final (main e evs)) (VBO (final (main e evs))) = Some vertices
        \<and> filter is_glBufferData (calls (final (main e evs))) = [glBufferData vertices])"
  using vertices_shape init_geometry [of e w] glutMainLoop_geometry [of e evs w]
    main_geometry [of e evs]
  by simp

theorem cube_geometry_fixed_witness:
  "exit_code (init env_ok start) = None
   \<and> buffer_store (final (init env_ok start)) 1 = Some vertices
   \<and> filter is_glBufferData (calls (final (init env_ok start))) = [glBufferData vertices]
   \<and> exit_code (main env_ok
        [Redisplay, SpecialKey GLUT_KEY_RIGHT 10 20, Redisplay, SpecialKey GLUT_KEY_HOME 0 0])
       = None
   \<and> buffer_store (final (main env_ok
        [Redisplay, SpecialKey GLUT_KEY_RIGHT 10 20, Redisplay, SpecialKey GLUT_KEY_HOME 0 0]))
        1 = Some vertices
   \<and> filter is_glBufferData (calls (final (main env_ok
        [Redisplay, SpecialKey GLUT_KEY_RIGHT 10 20, Redisplay, SpecialKey GLUT_KEY_HOME 0 0])))
       = [glBufferData vertices]"
proof -
  let ?evs = "[Redisplay, SpecialKey GLUT_KEY_RIGHT 10 20, Redisplay,
    SpecialKey GLUT_KEY_HOME 0 0]"
  have a: "exit_code (init env_ok start) = None"
    by (simp add: exit_code_init init_shaders_env_ok)
  have b: "exit_code (main env_ok ?evs) = None"
    by (simp add: exit_code_main exit_code_init init_shaders_env_ok)
  have v1: "VBO (final (init env_ok start)) = 1"
    using a by (simp add: exit_code_init final_init) (simp add: env_ok_def)
  have v2: "VBO (final (main env_ok ?evs)) = 1"
    using b cube_geometry_fixed [of env_ok
        "gl glutSpecialFunc (gl glutDisplayFunc (final (init env_ok
           (gl (glutCreateWindow ''OpenGL Cube with GLUT'')
             (gl (glutInitWindowSize 800 600) (gl glutInitDisplayMode (gl glutInit start)))))))"
        ?evs]
    by (simp add: exit_code_main final_main Let_def exit_code_init final_init)
       (simp add: env_ok_def)
  have c0: "calls start = []"
    by (simp add: start_def)
  from cube_geometry_fixed [of env_ok start ?evs] a b
  have "buffer_store (final (init env_ok start)) 1 = Some vertices
    \<and> filter is_glBufferData (calls (final (init env_ok start))) = [glBufferData vertices]
    \<and> buffer_store (final (main env_ok ?evs)) 1 = Some vertices
    \<and> filter is_glBufferData (calls (final (main env_ok ?evs))) = [glBufferData vertices]"
    unfolding v1 v2 c0 by simp
  with a b show ?thesis by blast
qed

end
